theory Spec2Isabelle
  imports Complex_Main "HOL-Library.Product_Lexorder" "HOL-Library.List_Lexorder"
begin

section \<open>JavaScript numbers and cell values\<close>

text \<open>
  A JavaScript \<^verbatim>\<open>number\<close> is modelled as a real number, one of the two infinities, or
  NaN. Rounding to double precision and the sign of zero are not represented: finite
  arithmetic is exact, and the single zero behaves as \<^verbatim>\<open>+0\<close>.
\<close>

datatype jsnum = NaN | NInf | PInf | Num real

definition isNaN :: "jsnum \<Rightarrow> bool" where
  "isNaN x = (x = NaN)"

fun js_neg :: "jsnum \<Rightarrow> jsnum" where
  "js_neg NaN = NaN"
| "js_neg NInf = PInf"
| "js_neg PInf = NInf"
| "js_neg (Num r) = Num (- r)"

fun js_add :: "jsnum \<Rightarrow> jsnum \<Rightarrow> jsnum" where
  "js_add (Num a) (Num b) = Num (a + b)"
| "js_add NaN _ = NaN"
| "js_add _ NaN = NaN"
| "js_add PInf NInf = NaN"
| "js_add NInf PInf = NaN"
| "js_add PInf _ = PInf"
| "js_add _ PInf = PInf"
| "js_add NInf _ = NInf"
| "js_add _ NInf = NInf"

definition js_sub :: "jsnum \<Rightarrow> jsnum \<Rightarrow> jsnum" where
  "js_sub a b = js_add a (js_neg b)"

text \<open>The sign of a number that is not NaN: is it above zero?\<close>

fun js_positive :: "jsnum \<Rightarrow> bool" where
  "js_positive PInf = True"
| "js_positive (Num r) = (0 < r)"
| "js_positive _ = False"

fun js_mul :: "jsnum \<Rightarrow> jsnum \<Rightarrow> jsnum" where
  "js_mul (Num a) (Num b) = Num (a * b)"
| "js_mul NaN _ = NaN"
| "js_mul _ NaN = NaN"
| "js_mul a b =
     (if a = Num 0 \<or> b = Num 0 then NaN
      else if js_positive a = js_positive b then PInf else NInf)"

fun js_div :: "jsnum \<Rightarrow> jsnum \<Rightarrow> jsnum" where
  "js_div (Num a) (Num b) =
     (if b \<noteq> 0 then Num (a / b)
      else if a = 0 then NaN else if 0 < a then PInf else NInf)"
| "js_div NaN _ = NaN"
| "js_div _ NaN = NaN"
| "js_div (Num a) _ = Num 0"
| "js_div a (Num b) = (if js_positive a = (0 \<le> b) then PInf else NInf)"
| "js_div _ _ = NaN"

fun Math_sqrt :: "jsnum \<Rightarrow> jsnum" where
  "Math_sqrt (Num r) = (if r < 0 then NaN else Num (sqrt r))"
| "Math_sqrt PInf = PInf"
| "Math_sqrt _ = NaN"

fun Math_abs :: "jsnum \<Rightarrow> jsnum" where
  "Math_abs (Num r) = Num \<bar>r\<bar>"
| "Math_abs NaN = NaN"
| "Math_abs _ = PInf"

text \<open>\<^verbatim>\<open>Math.pow(x, 2)\<close>\<close>

definition Math_pow2 :: "jsnum \<Rightarrow> jsnum" where
  "Math_pow2 x = js_mul x x"

text \<open>\<^verbatim>\<open>x || 0\<close> on a number: zero and NaN are falsy.\<close>

definition js_or0 :: "jsnum \<Rightarrow> jsnum" where
  "js_or0 x = (if x = NaN \<or> x = Num 0 then Num 0 else x)"

text \<open>
  The numeric order of the numbers other than NaN, as a key into a linear order:
  \<open>-Infinity\<close> below every real, \<open>Infinity\<close> above.
\<close>

fun js_key :: "jsnum \<Rightarrow> int \<times> real" where
  "js_key NInf = (-1, 0)"
| "js_key (Num r) = (0, r)"
| "js_key PInf = (1, 0)"
| "js_key NaN = (2, 0)"

definition js_min2 :: "jsnum \<Rightarrow> jsnum \<Rightarrow> jsnum" where
  "js_min2 a b = (if a = NaN \<or> b = NaN then NaN else if js_key b < js_key a then b else a)"

definition js_max2 :: "jsnum \<Rightarrow> jsnum \<Rightarrow> jsnum" where
  "js_max2 a b = (if a = NaN \<or> b = NaN then NaN else if js_key a < js_key b then b else a)"

text \<open>
  The values of \<^verbatim>\<open>Math.min\<close> and \<^verbatim>\<open>Math.max\<close> on the arguments \<open>xs\<close>. Whether a
  call that spreads a list takes that many arguments is \<open>spread\<close>, below.
\<close>

definition Math_min :: "jsnum list \<Rightarrow> jsnum" where
  "Math_min xs = fold (\<lambda>x acc. js_min2 acc x) xs PInf"

definition Math_max :: "jsnum list \<Rightarrow> jsnum" where
  "Math_max xs = fold (\<lambda>x acc. js_max2 acc x) xs NInf"

text \<open>
  \<^verbatim>\<open>xs.sort((a, b) => a - b)\<close> on numbers none of which is NaN: ascending numeric order
  (the sort is stable, and the difference of two equal infinities, NaN, counts as a tie).
\<close>

definition sort_numeric :: "jsnum list \<Rightarrow> jsnum list" where
  "sort_numeric xs = sort_key js_key xs"

text \<open>
  A cell of a parsed row (\<^verbatim>\<open>DataPoint\<close> is \<^verbatim>\<open>{[key: string]: any}\<close>): null, an absent
  property (undefined), a number or a text. A row lists its own properties in the order
  \<^verbatim>\<open>Object.keys\<close> enumerates them. A text is a list of code units below 256.
\<close>

datatype cell = CNull | CUndefined | CNum jsnum | CStr string

type_synonym DataPoint = "(string \<times> cell) list"

definition Object_keys :: "DataPoint \<Rightarrow> string list" where
  "Object_keys row = map fst row"

text \<open>
  \<^verbatim>\<open>row[col]\<close>: a property the row lacks reads as undefined (what a plain object
  inherits from its prototype is not modelled).
\<close>

definition get :: "DataPoint \<Rightarrow> string \<Rightarrow> cell" where
  "get row col = (case map_of row col of None \<Rightarrow> CUndefined | Some v \<Rightarrow> v)"

text \<open>
  \<^verbatim>\<open>Number(val)\<close>. The conversion of a text to a number is the language's own
  \<open>StringToNumber\<close>; it is the parameter \<open>N\<close> of everything below that converts a text.
\<close>

fun Number :: "(string \<Rightarrow> jsnum) \<Rightarrow> cell \<Rightarrow> jsnum" where
  "Number N CNull = Num 0"
| "Number N CUndefined = NaN"
| "Number N (CNum x) = x"
| "Number N (CStr s) = N s"

text \<open>\<^verbatim>\<open>typeof val === 'number'\<close>\<close>

fun is_number :: "cell \<Rightarrow> bool" where
  "is_number (CNum _) = True"
| "is_number _ = False"

text \<open>
  An instance of \<open>StringToNumber\<close> for concrete runs: the empty text is 0, a text of
  decimal digits is its value, every other text is NaN. It agrees with the language on
  the empty text, on digit strings and on texts that are no numeric literal.
\<close>

definition digit_value :: "char \<Rightarrow> nat option" where
  "digit_value c =
     (let k = (of_char c :: nat) in if 48 \<le> k \<and> k \<le> 57 then Some (k - 48) else None)"

fun digits_value :: "nat \<Rightarrow> string \<Rightarrow> nat option" where
  "digits_value acc [] = Some acc"
| "digits_value acc (c # cs) =
     (case digit_value c of None \<Rightarrow> None | Some d \<Rightarrow> digits_value (10 * acc + d) cs)"

definition Number_decimal :: "string \<Rightarrow> jsnum" where
  "Number_decimal s = (case digits_value 0 s of None \<Rightarrow> NaN | Some n \<Rightarrow> Num (real n))"

section \<open>The dataset profiler: \<^verbatim>\<open>analyzeData\<close>\<close>

datatype error = Error string | TypeError | RangeError

datatype problem_type = Classification | Regression

text \<open>
  The statistics of one column. \<open>min\<close> and \<open>max\<close> are constants of HOL, so the
  fields of the source (\<^verbatim>\<open>mean\<close>, \<^verbatim>\<open>median\<close>, \<^verbatim>\<open>min\<close>, \<^verbatim>\<open>max\<close>, \<^verbatim>\<open>std\<close>) carry a
  prefix.
\<close>

record column_statistics =
  stat_mean :: jsnum
  stat_median :: jsnum
  stat_min :: jsnum
  stat_max :: jsnum
  stat_std :: jsnum

text \<open>
  The analysis record as \<^verbatim>\<open>analyzeData\<close> returns it: the optional fields
  \<^verbatim>\<open>targetColumn\<close>, \<^verbatim>\<open>problemType\<close> and \<^verbatim>\<open>classBalance\<close> are not set by it.
\<close>

record DataAnalysis =
  shape_rows :: nat
  shape_columns :: nat
  columns :: "string list"
  dtypes :: "string \<rightharpoonup> string"
  missingValues :: "string \<rightharpoonup> nat"
  numericalColumns :: "string list"
  categoricalColumns :: "string list"
  statistics :: "string \<rightharpoonup> column_statistics"

text \<open>
  The locals of the first loop over the columns, by their names in the source. The
  product \<^verbatim>\<open>length * 0.8\<close> is exact here; the source compares its double with a
  whole number, and for every length below \<open>2\<^sup>5\<^sup>0\<close> the two comparisons agree (the
  double of a whole product is that whole number, and any other product is at least
  0.2 away from a whole number).
\<close>

definition nonNullValues :: "DataPoint list \<Rightarrow> string \<Rightarrow> cell list" where
  "nonNullValues data col =
     filter (\<lambda>val. val \<noteq> CNull \<and> val \<noteq> CUndefined \<and> val \<noteq> CStr [])
       (map (\<lambda>row. get row col) data)"

definition numericalValues :: "(string \<Rightarrow> jsnum) \<Rightarrow> DataPoint list \<Rightarrow> string \<Rightarrow> cell list" where
  "numericalValues N data col =
     filter (\<lambda>val. is_number val \<or> \<not> isNaN (Number N val)) (nonNullValues data col)"

definition isNumerical :: "(string \<Rightarrow> jsnum) \<Rightarrow> DataPoint list \<Rightarrow> string \<Rightarrow> bool" where
  "isNumerical N data col =
     (real (length (nonNullValues data col)) * 0.8 < real (length (numericalValues N data col)))"

text \<open>One round of \<^verbatim>\<open>columns.forEach\<close>: the missing count, the type and the column list.\<close>

definition classify_column ::
  "(string \<Rightarrow> jsnum) \<Rightarrow> DataPoint list \<Rightarrow> string \<Rightarrow> DataAnalysis \<Rightarrow> DataAnalysis" where
  "classify_column N data col a =
     (let a1 = a\<lparr>missingValues :=
                 (missingValues a)(col \<mapsto> length data - length (nonNullValues data col))\<rparr>
      in if isNumerical N data col
         then a1\<lparr>dtypes := (dtypes a1)(col \<mapsto> ''number''),
                 numericalColumns := numericalColumns a1 @ [col]\<rparr>
         else a1\<lparr>dtypes := (dtypes a1)(col \<mapsto> ''string''),
                 categoricalColumns := categoricalColumns a1 @ [col]\<rparr>)"

text \<open>
  \<^verbatim>\<open>f(...xs)\<close>: a call that spreads more elements than the engine accepts as call
  arguments throws a RangeError. The limit differs between engines; it is the parameter
  \<open>maxArgs\<close> of the profiler.
\<close>

definition spread :: "nat \<Rightarrow> (jsnum list \<Rightarrow> jsnum) \<Rightarrow> jsnum list \<Rightarrow> error + jsnum" where
  "spread maxArgs f xs = (if maxArgs < length xs then Inl RangeError else Inr (f xs))"

text \<open>
  The values of a numeric column: \<^verbatim>\<open>data.map(row => Number(row[col])).filter(val => !isNaN(val))\<close>.
\<close>

definition column_values :: "(string \<Rightarrow> jsnum) \<Rightarrow> DataPoint list \<Rightarrow> string \<Rightarrow> jsnum list" where
  "column_values N data col =
     filter (\<lambda>val. \<not> isNaN val) (map (\<lambda>row. Number N (get row col)) data)"

text \<open>
  One round of \<^verbatim>\<open>numericalColumns.forEach\<close>. \<^verbatim>\<open>values.sort\<close> sorts in place, so the
  sums run over the sorted list. \<^verbatim>\<open>Math.min(...values)\<close> and \<^verbatim>\<open>Math.max(...values)\<close>
  spread the whole column into call arguments. The object literal is evaluated before it is stored:
  \<^verbatim>\<open>statistics[col]?.mean\<close> reads the map as it is before this round, undefined
  (NaN under subtraction) where the column has no entry yet, and
  \<^verbatim>\<open>val - statistics[col]?.mean || 0\<close> parses as \<^verbatim>\<open>(val - statistics[col]?.mean) || 0\<close>.
\<close>

definition column_stats ::
  "(string \<Rightarrow> jsnum) \<Rightarrow> nat \<Rightarrow> DataPoint list \<Rightarrow> string \<Rightarrow> (string \<rightharpoonup> column_statistics)
     \<Rightarrow> error + (string \<rightharpoonup> column_statistics)" where
  "column_stats N maxArgs data col stats =
     (let vals = column_values N data col in
      if 0 < length vals then
        let sorted = sort_numeric vals;
            prior_mean = (case stats col of None \<Rightarrow> NaN | Some s \<Rightarrow> stat_mean s)
        in case spread maxArgs Math_min sorted of
             Inl e \<Rightarrow> Inl e
           | Inr lowest \<Rightarrow>
               (case spread maxArgs Math_max sorted of
                  Inl e \<Rightarrow> Inl e
                | Inr highest \<Rightarrow>
                    Inr (stats(col \<mapsto>
                      \<lparr>stat_mean = js_div (fold (\<lambda>val sum. js_add sum val) sorted (Num 0))
                                           (Num (real (length sorted))),
                       stat_median = sorted ! (length sorted div 2),
                       stat_min = lowest,
                       stat_max = highest,
                       stat_std = Math_sqrt
                         (js_div (fold (\<lambda>val sum. js_add sum
                                          (Math_pow2 (js_or0 (js_sub val prior_mean))))
                                    sorted (Num 0))
                                 (Num (real (length sorted))))\<rparr>)))
      else Inr stats)"

text \<open>\<^verbatim>\<open>numericalColumns.forEach\<close>: an exception ends the loop and leaves the profiler.\<close>

fun stats_loop ::
  "(string \<Rightarrow> jsnum) \<Rightarrow> nat \<Rightarrow> DataPoint list \<Rightarrow> string list \<Rightarrow> (string \<rightharpoonup> column_statistics)
     \<Rightarrow> error + (string \<rightharpoonup> column_statistics)" where
  "stats_loop N maxArgs data [] stats = Inr stats"
| "stats_loop N maxArgs data (col # cols) stats =
     (case column_stats N maxArgs data col stats of
        Inl e \<Rightarrow> Inl e
      | Inr stats' \<Rightarrow> stats_loop N maxArgs data cols stats')"

definition analyzeData ::
  "(string \<Rightarrow> jsnum) \<Rightarrow> nat \<Rightarrow> DataPoint list \<Rightarrow> error + DataAnalysis" where
  "analyzeData N maxArgs data =
     (case data of
        [] \<Rightarrow> Inl (Error ''No data to analyze'')
      | row0 # _ \<Rightarrow>
          let cols = Object_keys row0;
              a0 = \<lparr>shape_rows = length data, shape_columns = length cols, columns = cols,
                    dtypes = Map.empty, missingValues = Map.empty,
                    numericalColumns = [], categoricalColumns = [],
                    statistics = Map.empty\<rparr>;
              a1 = fold (classify_column N data) cols a0
          in case stats_loop N maxArgs data (numericalColumns a1) Map.empty of
               Inl e \<Rightarrow> Inl e
             | Inr stats \<Rightarrow> Inr (a1\<lparr>statistics := stats\<rparr>))"

section \<open>Problem type: \<^verbatim>\<open>detectProblemType\<close>\<close>

text \<open>
  \<^verbatim>\<open>new Set(xs)\<close>, as the list of its members in insertion order. Members are compared
  by SameValueZero: NaN is one member, and a number is never a text.
\<close>

definition Set_add :: "'a \<Rightarrow> 'a list \<Rightarrow> 'a list" where
  "Set_add x s = (if x \<in> set s then s else s @ [x])"

definition Set_values :: "'a list \<Rightarrow> 'a list" where
  "Set_values xs = fold Set_add xs []"




section \<open>Feature encoding: \<^verbatim>\<open>prepareFeatures\<close>\<close>

text \<open>\<^verbatim>\<open>s.charCodeAt(0) % 100\<close>: NaN on the empty text.\<close>

definition charCode0_mod100 :: "string \<Rightarrow> jsnum" where
  "charCode0_mod100 s =
     (case s of [] \<Rightarrow> NaN | c # _ \<Rightarrow> Num (real ((of_char c :: nat) mod 100)))"

text \<open>
  The branches of the loop over the feature columns, in their order: a null, undefined
  or empty cell clears \<^verbatim>\<open>validRow\<close> and pushes nothing (\<open>None\<close>); a number is pushed
  as it is, a text that converts to a number as that number, any other text as the code
  of its first character modulo 100.
\<close>

fun feature_value :: "(string \<Rightarrow> jsnum) \<Rightarrow> cell \<Rightarrow> jsnum option" where
  "feature_value N CNull = None"
| "feature_value N CUndefined = None"
| "feature_value N (CNum x) = Some x"
| "feature_value N (CStr s) =
     (if s = [] then None
      else if \<not> isNaN (N s) then Some (N s) else Some (charCode0_mod100 s))"

text \<open>
  The target of a row: the guard is \<^verbatim>\<open>row[targetColumn] !== null && row[targetColumn] !== undefined\<close>
  (\<open>None\<close> where it fails), then the same three encodings.
\<close>

fun target_value :: "(string \<Rightarrow> jsnum) \<Rightarrow> cell \<Rightarrow> jsnum option" where
  "target_value N CNull = None"
| "target_value N CUndefined = None"
| "target_value N (CNum x) = Some x"
| "target_value N (CStr s) =
     (if \<not> isNaN (N s) then Some (N s) else Some (charCode0_mod100 s))"

record prepared =
  features :: "jsnum list list"
  targets :: "jsnum list"

text \<open>The inner loop: the feature row built so far and the flag \<^verbatim>\<open>validRow\<close>.\<close>

definition push_feature ::
  "(string \<Rightarrow> jsnum) \<Rightarrow> DataPoint \<Rightarrow> string \<Rightarrow> jsnum list \<times> bool \<Rightarrow> jsnum list \<times> bool" where
  "push_feature N row col st =
     (case feature_value N (get row col) of
        None \<Rightarrow> (fst st, False)
      | Some x \<Rightarrow> (fst st @ [x], snd st))"

definition encode_row ::
  "(string \<Rightarrow> jsnum) \<Rightarrow> string list \<Rightarrow> string \<Rightarrow> DataPoint \<Rightarrow> prepared \<Rightarrow> prepared" where
  "encode_row N featureColumns targetColumn row acc =
     (let st = fold (push_feature N row) featureColumns ([], True);
          featureRow = fst st; validRow = snd st
      in if validRow then
           (case target_value N (get row targetColumn) of
              None \<Rightarrow> acc
            | Some targetValue \<Rightarrow>
                acc\<lparr>features := features acc @ [featureRow],
                    targets := targets acc @ [targetValue]\<rparr>)
         else acc)"

definition prepareFeatures ::
  "(string \<Rightarrow> jsnum) \<Rightarrow> DataPoint list \<Rightarrow> string list \<Rightarrow> string \<Rightarrow> prepared" where
  "prepareFeatures N data featureColumns targetColumn =
     fold (encode_row N featureColumns targetColumn) data \<lparr>features = [], targets = []\<rparr>"

section \<open>The decision tree's leaf label: \<^verbatim>\<open>getMostCommonValue\<close>\<close>

text \<open>
  \<^verbatim>\<open>counts\<close> is an object keyed by the labels' string forms. Distinct numbers have
  distinct string forms and \<^verbatim>\<open>Number\<close> reads a string form back as the number, so
  the model keys the table by the number itself, in order of insertion.
  \<^verbatim>\<open>counts[val] = (counts[val] || 0) + 1\<close>:
\<close>

definition count_label :: "jsnum \<Rightarrow> (jsnum \<times> nat) list \<Rightarrow> (jsnum \<times> nat) list" where
  "count_label val counts =
     (case map_of counts val of
        None \<Rightarrow> counts @ [(val, 1)]
      | Some c \<Rightarrow> map (\<lambda>kv. if fst kv = val then (fst kv, snd kv + 1) else kv) counts)"

text \<open>
  \<^verbatim>\<open>Object.keys\<close> enumerates the keys that are array indices (the string forms of the
  integers from 0 to \<open>2\<^sup>3\<^sup>2 - 2\<close>) first, in ascending numeric order, and then every
  other key in order of insertion.
\<close>

definition is_array_index :: "jsnum \<Rightarrow> bool" where
  "is_array_index x =
     (case x of Num r \<Rightarrow> 0 \<le> r \<and> r = of_int \<lfloor>r\<rfloor> \<and> r < 4294967295 | _ \<Rightarrow> False)"

definition own_keys :: "(jsnum \<times> nat) list \<Rightarrow> jsnum list" where
  "own_keys counts =
     sort_numeric (filter is_array_index (map fst counts)) @
     filter (\<lambda>k. \<not> is_array_index k) (map fst counts)"

text \<open>One step of \<^verbatim>\<open>reduce((a, b) => counts[Number(a)] > counts[Number(b)] ? a : b)\<close>.\<close>

definition more_common :: "(jsnum \<times> nat) list \<Rightarrow> jsnum \<Rightarrow> jsnum \<Rightarrow> jsnum" where
  "more_common counts b a =
     (case (map_of counts a, map_of counts b) of
        (Some ca, Some cb) \<Rightarrow> if cb < ca then a else b
      | _ \<Rightarrow> b)"

text \<open>\<^verbatim>\<open>reduce\<close> without an initial value raises a TypeError on the empty array.\<close>

definition getMostCommonValue :: "jsnum list \<Rightarrow> error + jsnum" where
  "getMostCommonValue y =
     (let counts = fold count_label y [] in
      case own_keys counts of
        [] \<Rightarrow> Inl TypeError
      | k # ks \<Rightarrow> Inr (fold (more_common counts) ks k))"

section \<open>Metrics and the confusion matrix\<close>

text \<open>\<^verbatim>\<open>xs[idx]\<close>: undefined (\<open>None\<close>) out of range.\<close>

definition elem_at :: "'a list \<Rightarrow> nat \<Rightarrow> 'a option" where
  "elem_at xs idx = (if idx < length xs then Some (xs ! idx) else None)"

text \<open>\<^verbatim>\<open>a === b\<close> where either side may be undefined: NaN equals nothing.\<close>

definition strict_eq :: "jsnum option \<Rightarrow> jsnum option \<Rightarrow> bool" where
  "strict_eq a b = (a = b \<and> a \<noteq> Some NaN)"

text \<open>A number or undefined under arithmetic: undefined converts to NaN.\<close>

definition ToNumber :: "jsnum option \<Rightarrow> jsnum" where
  "ToNumber v = (case v of None \<Rightarrow> NaN | Some x \<Rightarrow> x)"

text \<open>
  \<^verbatim>\<open>Number(x.toFixed(4))\<close>: the nearest multiple of \<open>10\<^sup>-\<^sup>4\<close>, a tie going away from
  zero; a number of magnitude \<open>10\<^sup>2\<^sup>1\<close> or more, an infinity and NaN come back as they are.
\<close>

definition toFixed4 :: "jsnum \<Rightarrow> jsnum" where
  "toFixed4 x =
     (case x of
        Num r \<Rightarrow>
          if 10 ^ 21 \<le> \<bar>r\<bar> then Num r
          else Num (sgn r * of_int \<lfloor>\<bar>r\<bar> * 10000 + 1 / 2\<rfloor> / 10000)
      | _ \<Rightarrow> x)"

text \<open>\<^verbatim>\<open>arr.filter((val, idx) => ...)\<close> and \<^verbatim>\<open>arr.reduce((sum, val, idx) => ..., 0)\<close> see the index.\<close>

definition indexed :: "'a list \<Rightarrow> (nat \<times> 'a) list" where
  "indexed xs = enumerate 0 xs"

definition regression_metrics :: "jsnum list \<Rightarrow> jsnum list \<Rightarrow> (string \<times> jsnum) list" where
  "regression_metrics actual predicted =
     (let n = Num (real (length actual));
          mse = js_div (fold (\<lambda>iv sum. js_add sum
                          (Math_pow2 (js_sub (snd iv) (ToNumber (elem_at predicted (fst iv))))))
                        (indexed actual) (Num 0)) n;
          mae = js_div (fold (\<lambda>iv sum. js_add sum
                          (Math_abs (js_sub (snd iv) (ToNumber (elem_at predicted (fst iv))))))
                        (indexed actual) (Num 0)) n;
          actualMean = js_div (fold (\<lambda>val sum. js_add sum val) actual (Num 0)) n;
          totalSumSquares =
            fold (\<lambda>val sum. js_add sum (Math_pow2 (js_sub val actualMean))) actual (Num 0);
          r2 = js_sub (Num 1) (js_div (js_mul mse n) totalSumSquares)
      in [(''Mean Squared Error'', toFixed4 mse),
          (''Mean Absolute Error'', toFixed4 mae),
          (''Root Mean Squared Error'', toFixed4 (Math_sqrt mse)),
          (''R'' @ [CHR 0xB2] @ '' Score'', toFixed4 r2)])"

text \<open>
  \<^verbatim>\<open>Math.max(...uniqueClasses)\<close> is reached with exactly two classes: a call with two
  arguments, which every engine accepts.
\<close>

definition classification_metrics :: "jsnum list \<Rightarrow> jsnum list \<Rightarrow> (string \<times> jsnum) list" where
  "classification_metrics actual predicted =
     (let correct = length (filter (\<lambda>iv. strict_eq (Some (snd iv)) (elem_at predicted (fst iv)))
                             (indexed actual));
          accuracy = js_div (Num (real correct)) (Num (real (length actual)));
          uniqueClasses = Set_values (actual @ predicted);
          prf =
            (if length uniqueClasses = 2 then
               let positiveClass = Some (Math_max uniqueClasses);
                   tp = length (filter (\<lambda>iv. strict_eq (Some (snd iv)) positiveClass \<and>
                                   strict_eq (elem_at predicted (fst iv)) positiveClass)
                                 (indexed actual));
                   fp = length (filter (\<lambda>iv. strict_eq (Some (snd iv)) positiveClass \<and>
                                   \<not> strict_eq (elem_at actual (fst iv)) positiveClass)
                                 (indexed predicted));
                   fn = length (filter (\<lambda>iv. strict_eq (Some (snd iv)) positiveClass \<and>
                                   \<not> strict_eq (elem_at predicted (fst iv)) positiveClass)
                                 (indexed actual));
                   precision = js_or0 (js_div (Num (real tp)) (Num (real (tp + fp))));
                   recall = js_or0 (js_div (Num (real tp)) (Num (real (tp + fn))));
                   f1 = js_or0 (js_div (js_mul (Num 2) (js_mul precision recall))
                                       (js_add precision recall))
               in (precision, recall, f1)
             else (Num 0, Num 0, Num 0))
      in [(''Accuracy'', toFixed4 accuracy),
          (''Precision'', toFixed4 (fst prf)),
          (''Recall'', toFixed4 (fst (snd prf))),
          (''F1 Score'', toFixed4 (snd (snd prf)))])"

definition calculateMetrics ::
  "jsnum list \<Rightarrow> jsnum list \<Rightarrow> problem_type \<Rightarrow> (string \<times> jsnum) list" where
  "calculateMetrics actual predicted problemType =
     (if problemType = Regression then regression_metrics actual predicted
      else classification_metrics actual predicted)"

text \<open>
  \<^verbatim>\<open>xs.sort()\<close> with no comparator orders the elements by their string forms, compared
  code unit by code unit; the sort is stable. The string form of a number is the
  language's \<open>Number::toString\<close>, the parameter \<open>toStr\<close>.
\<close>

definition sort_default :: "(jsnum \<Rightarrow> string) \<Rightarrow> jsnum list \<Rightarrow> jsnum list" where
  "sort_default toStr xs = sort_key (\<lambda>x. map (of_char :: char \<Rightarrow> nat) (toStr x)) xs"

text \<open>\<^verbatim>\<open>xs.indexOf(v)\<close> searches by strict equality; \<open>None\<close> is the result -1.\<close>

fun indexOf :: "jsnum list \<Rightarrow> jsnum option \<Rightarrow> nat option" where
  "indexOf [] v = None"
| "indexOf (x # xs) v =
     (if strict_eq (Some x) v then Some 0 else map_option Suc (indexOf xs v))"

text \<open>One round of \<^verbatim>\<open>actual.forEach\<close>: \<^verbatim>\<open>matrix[actualIdx][predictedIdx]++\<close>.\<close>

definition tally ::
  "jsnum list \<Rightarrow> jsnum list \<Rightarrow> nat \<times> jsnum \<Rightarrow> nat list list \<Rightarrow> nat list list" where
  "tally uniqueClasses predicted iv matrix =
     (case (indexOf uniqueClasses (Some (snd iv)), indexOf uniqueClasses (elem_at predicted (fst iv))) of
        (Some actualIdx, Some predictedIdx) \<Rightarrow>
          matrix[actualIdx := (matrix ! actualIdx)[predictedIdx :=
                                 matrix ! actualIdx ! predictedIdx + 1]]
      | _ \<Rightarrow> matrix)"

definition calculateConfusionMatrix ::
  "(jsnum \<Rightarrow> string) \<Rightarrow> jsnum list \<Rightarrow> jsnum list \<Rightarrow> nat list list" where
  "calculateConfusionMatrix toStr actual predicted =
     (let uniqueClasses = sort_default toStr (Set_values (actual @ predicted));
          matrix = replicate (length uniqueClasses) (replicate (length uniqueClasses) 0)
      in fold (tally uniqueClasses predicted) (indexed actual) matrix)"

text \<open>The shape of the matrix: \<open>n\<close> rows of \<open>n\<close> entries.\<close>

definition square :: "nat \<Rightarrow> nat list list \<Rightarrow> bool" where
  "square n m = (length m = n \<and> list_all (\<lambda>row. length row = n) m)"

text \<open>
  An instance of \<open>Number::toString\<close> for concrete runs: it agrees with the language on
  NaN, the infinities and the integers of magnitude below \<open>10\<^sup>2\<^sup>1\<close>, and is used on
  these only.
\<close>

fun nat_string :: "nat \<Rightarrow> string" where
  "nat_string n =
     (if n < 10 then [char_of (48 + n)]
      else nat_string (n div 10) @ [char_of (48 + n mod 10)])"

definition toString_integer :: "jsnum \<Rightarrow> string" where
  "toString_integer x =
     (case x of
        NaN \<Rightarrow> ''NaN''
      | PInf \<Rightarrow> ''Infinity''
      | NInf \<Rightarrow> ''-Infinity''
      | Num r \<Rightarrow> if r < 0 then ''-'' @ nat_string (nat \<lfloor>- r\<rfloor>) else nat_string (nat \<lfloor>r\<rfloor>))"

section \<open>The training pipeline: \<^verbatim>\<open>trainModel\<close>\<close>

text \<open>
  Fitting a model on the training rows and predicting the held-out rows is a parameter
  of the pipeline, one entry per model of the dispatch table; \<open>Inl\<close> is the text of an
  exception the model throws. What follows holds for whichever implementations are
  plugged in, the \<^verbatim>\<open>LogisticRegression\<close> and \<^verbatim>\<open>DecisionTree\<close> classes of the source
  and the library models alike. The simple linear regression is given \<^verbatim>\<open>row[0]\<close> of
  every row, undefined on an empty row; the logistic regression returns the
  probabilities, which the pipeline rounds.
\<close>

type_synonym fit_predict =
  "jsnum list list \<Rightarrow> jsnum list \<Rightarrow> jsnum list list \<Rightarrow> string + jsnum list"

record forest_options =
  nEstimators :: nat
  maxFeatures :: nat
  replacement :: bool

record model_library =
  SimpleLinearRegression ::
    "jsnum option list \<Rightarrow> jsnum list \<Rightarrow> jsnum option list \<Rightarrow> string + jsnum list"
  MultivariateLinearRegression :: fit_predict
  RandomForestRegression :: "forest_options \<Rightarrow> fit_predict"
  LogisticRegression :: fit_predict
  DecisionTree :: fit_predict
  RandomForestClassifier :: "forest_options \<Rightarrow> fit_predict"

text \<open>\<^verbatim>\<open>Math.round\<close>\<close>

fun Math_round :: "jsnum \<Rightarrow> jsnum" where
  "Math_round (Num r) = Num (of_int \<lfloor>r + 1 / 2\<rfloor>)"
| "Math_round x = x"

text \<open>\<^verbatim>\<open>XTrain[0].length\<close> throws a TypeError when there is no training row.\<close>

definition first_row_length :: "jsnum list list \<Rightarrow> string + nat" where
  "first_row_length XTrain = (case XTrain of [] \<Rightarrow> Inl ''TypeError'' | row # _ \<Rightarrow> Inr (length row))"

definition forest_config :: "nat \<Rightarrow> forest_options" where
  "forest_config featureCount =
     \<lparr>nEstimators = 10, maxFeatures = nat \<lfloor>sqrt (real featureCount)\<rfloor>, replacement = False\<rparr>"

text \<open>
  The body of the \<^verbatim>\<open>try\<close> block: the predictions and the model name, which start as
  \<^verbatim>\<open>[]\<close> and \<^verbatim>\<open>''\<close> and stay so when no branch matches the token.
\<close>

definition dispatch ::
  "model_library \<Rightarrow> jsnum list list \<Rightarrow> jsnum list \<Rightarrow> jsnum list list \<Rightarrow> problem_type \<Rightarrow> string
     \<Rightarrow> string + jsnum list \<times> string" where
  "dispatch lib XTrain yTrain XTest problemType modelType =
     (if problemType = Regression then
        if modelType = ''linear'' \<or> modelType = ''auto'' then
          (case first_row_length XTrain of
             Inl e \<Rightarrow> Inl e
           | Inr len \<Rightarrow>
               if len = 1 then
                 map_sum id (\<lambda>p. (p, ''Linear Regression''))
                   (SimpleLinearRegression lib (map (\<lambda>row. elem_at row 0) XTrain) yTrain
                      (map (\<lambda>row. elem_at row 0) XTest))
               else
                 map_sum id (\<lambda>p. (p, ''Multivariate Linear Regression''))
                   (MultivariateLinearRegression lib XTrain yTrain XTest))
        else if modelType = ''randomforest'' then
          (case first_row_length XTrain of
             Inl e \<Rightarrow> Inl e
           | Inr len \<Rightarrow>
               map_sum id (\<lambda>p. (p, ''Random Forest Regression''))
                 (RandomForestRegression lib (forest_config len) XTrain yTrain XTest))
        else Inr ([], [])
      else
        if modelType = ''logistic'' \<or> modelType = ''auto'' then
          map_sum id (\<lambda>p. (map Math_round p, ''Logistic Regression''))
            (LogisticRegression lib XTrain yTrain XTest)
        else if modelType = ''decisiontree'' then
          map_sum id (\<lambda>p. (p, ''Decision Tree'')) (DecisionTree lib XTrain yTrain XTest)
        else if modelType = ''randomforest'' then
          (case first_row_length XTrain of
             Inl e \<Rightarrow> Inl e
           | Inr len \<Rightarrow>
               map_sum id (\<lambda>p. (p, ''Random Forest Classifier''))
                 (RandomForestClassifier lib (forest_config len) XTrain yTrain XTest))
        else Inr ([], []))"

text \<open>\<^verbatim>\<open>Math.floor(X.length * 0.8)\<close>, with the exact product as above.\<close>

definition splitIndex :: "'a list \<Rightarrow> nat" where
  "splitIndex X = nat \<lfloor>real (length X) * 0.8\<rfloor>"

text \<open>
  The results record; its optional field \<^verbatim>\<open>featureImportance\<close> is never set.
  \<open>startTime\<close> and \<open>endTime\<close> are the two readings of \<^verbatim>\<open>Date.now()\<close>. The name is
  assigned last in every branch, so the \<^verbatim>\<open>catch\<close> block always reads the empty name.
\<close>

record ModelResults =
  model :: string
  problemType :: problem_type
  metrics :: "(string \<times> jsnum) list"
  predictions :: "jsnum list"
  actualValues :: "jsnum list"
  confusionMatrix :: "nat list list option"
  trainingTime :: int

definition trainModel ::
  "model_library \<Rightarrow> (jsnum \<Rightarrow> string) \<Rightarrow> int \<Rightarrow> int \<Rightarrow> jsnum list list \<Rightarrow> jsnum list
     \<Rightarrow> problem_type \<Rightarrow> string \<Rightarrow> error + ModelResults" where
  "trainModel lib toStr startTime endTime X y ptype modelType =
     (let XTrain = take (splitIndex X) X;
          yTrain = take (splitIndex X) y;
          XTest = drop (splitIndex X) X;
          yTest = drop (splitIndex X) y
      in case dispatch lib XTrain yTrain XTest ptype modelType of
           Inl e \<Rightarrow> Inl (Error (''Failed to train '' @ [] @ '': '' @ e))
         | Inr (preds, modelName) \<Rightarrow>
             Inr \<lparr>model = modelName,
                  problemType = ptype,
                  metrics = calculateMetrics yTest preds ptype,
                  predictions = preds,
                  actualValues = yTest,
                  confusionMatrix =
                    (if ptype = Classification
                     then Some (calculateConfusionMatrix toStr yTest preds) else None),
                  trainingTime = endTime - startTime\<rparr>)"

section \<open>The statistics as the specification words them\<close>

text \<open>
  The non-missing numeric values of a column: the values that are not null, undefined
  or the empty text, converted to numbers, those that convert.
\<close>

definition spec_non_missing_numeric_values ::
  "(string \<Rightarrow> jsnum) \<Rightarrow> DataPoint list \<Rightarrow> string \<Rightarrow> jsnum list" where
  "spec_non_missing_numeric_values N data col =
     filter (\<lambda>val. \<not> isNaN val) (map (Number N) (nonNullValues data col))"

text \<open>
  The population standard deviation: the square root of the sum of the squared
  deviations from the mean, divided by the count.
\<close>

definition spec_population_std :: "jsnum list \<Rightarrow> jsnum" where
  "spec_population_std vals =
     (let n = Num (real (length vals));
          mean = js_div (fold (\<lambda>val sum. js_add sum val) vals (Num 0)) n
      in Math_sqrt
           (js_div (fold (\<lambda>val sum. js_add sum (Math_pow2 (js_sub val mean))) vals (Num 0)) n))"

section \<open>Concrete datasets\<close>


text \<open>
  One numeric column with the values 1, 3, one with the values 1, 2, 3, 4, and one with
  \<open>n\<close> rows that hold the number 1.
\<close>

definition data_ones :: "nat \<Rightarrow> DataPoint list" where
  "data_ones n = replicate n [(''x'', CNum (Num 1))]"


definition data_1_3 :: "DataPoint list" where
  "data_1_3 = [[(''x'', CNum (Num 1))], [(''x'', CNum (Num 3))]]"

definition data_1234 :: "DataPoint list" where
  "data_1234 = [[(''x'', CNum (Num 1))], [(''x'', CNum (Num 2))],
                [(''x'', CNum (Num 3))], [(''x'', CNum (Num 4))]]"

text \<open>
  Targets: 21 rows with the 21 distinct numbers 0 to 20; these followed by 979 rows with
  the number 0, a thousand rows in all; and 5 rows with 5 distinct numbers.
\<close>

definition target_row :: "real \<Rightarrow> DataPoint" where
  "target_row r = [(''t'', CNum (Num r))]"




text \<open>A row whose feature \<open>x\<close> is 1 and whose target \<open>y\<close> is the empty text.\<close>

definition data_empty_target :: "DataPoint list" where
  "data_empty_target = [[(''x'', CNum (Num 1)), (''y'', CStr [])]]"

text \<open>Label lists, and a feature matrix of five rows with its targets.\<close>

definition labels_0101 :: "jsnum list" where
  "labels_0101 = [Num 0, Num 1, Num 0, Num 1]"

definition labels_1010 :: "jsnum list" where
  "labels_1010 = [Num 1, Num 0, Num 1, Num 0]"

definition labels_2_10_10 :: "jsnum list" where
  "labels_2_10_10 = [Num 2, Num 10, Num 10]"

definition X5 :: "jsnum list list" where
  "X5 = [[Num 1], [Num 2], [Num 3], [Num 4], [Num 5]]"

definition y5 :: "jsnum list" where
  "y5 = [Num 0, Num 1, Num 0, Num 1, Num 1]"

text \<open>
  A library for concrete runs: every model predicts, for each held-out row, the number
  of training rows it was given.
\<close>

definition train_count :: "'a list \<Rightarrow> jsnum list \<Rightarrow> 'b list \<Rightarrow> string + jsnum list" where
  "train_count XTrain yTrain XTest = Inr (map (\<lambda>row. Num (real (length XTrain))) XTest)"

definition counting_library :: model_library where
  "counting_library =
     \<lparr>SimpleLinearRegression = train_count,
      MultivariateLinearRegression = train_count,
      RandomForestRegression = (\<lambda>options. train_count),
      LogisticRegression = train_count,
      DecisionTree = train_count,
      RandomForestClassifier = (\<lambda>options. train_count)\<rparr>"

section \<open>The profiler: errors and column types\<close>

lemma classify_column_fields:
  "numericalColumns (classify_column N data col a) =
     numericalColumns a @ (if isNumerical N data col then [col] else [])"
  "categoricalColumns (classify_column N data col a) =
     categoricalColumns a @ (if isNumerical N data col then [] else [col])"
  "dtypes (classify_column N data col a) =
     (dtypes a)(col \<mapsto> (if isNumerical N data col then ''number'' else ''string''))"
  "missingValues (classify_column N data col a) =
     (missingValues a)(col \<mapsto> length data - length (nonNullValues data col))"
  "columns (classify_column N data col a) = columns a"
  by (simp_all add: classify_column_def Let_def)

lemma fold_classify_numerical:
  "numericalColumns (fold (classify_column N data) cols a) =
     numericalColumns a @ filter (isNumerical N data) cols"
  by (induction cols arbitrary: a) (simp_all add: classify_column_fields)

lemma fold_classify_categorical:
  "categoricalColumns (fold (classify_column N data) cols a) =
     categoricalColumns a @ filter (\<lambda>c. \<not> isNumerical N data c) cols"
  by (induction cols arbitrary: a) (simp_all add: classify_column_fields)

lemma fold_classify_dtypes:
  "dtypes (fold (classify_column N data) cols a) c =
     (if c \<in> set cols then Some (if isNumerical N data c then ''number'' else ''string'')
      else dtypes a c)"
  by (induction cols arbitrary: a rule: rev_induct) (simp_all add: classify_column_fields)

lemma fold_classify_missing:
  "missingValues (fold (classify_column N data) cols a) c =
     (if c \<in> set cols then Some (length data - length (nonNullValues data c))
      else missingValues a c)"
  by (induction cols arbitrary: a rule: rev_induct) (simp_all add: classify_column_fields)

lemma fold_classify_columns:
  "columns (fold (classify_column N data) cols a) = columns a"
  by (induction cols arbitrary: a) (simp_all add: classify_column_fields)

lemma length_sort_numeric [simp]: "length (sort_numeric xs) = length xs"
  by (simp add: sort_numeric_def)

lemma length_column_values: "length (column_values N data col) \<le> length data"
  by (simp add: column_values_def le_trans [OF length_filter_le])

text \<open>A round of the statistics loop returns, or throws the RangeError of a spread.\<close>

lemma column_stats_cases:
  "column_stats N L data col stats = Inl e \<Longrightarrow>
     e = RangeError \<and> L < length (column_values N data col)"
  "column_stats N L data col stats = Inr st \<Longrightarrow> length (column_values N data col) \<le> L"
  "length (column_values N data col) \<le> L \<Longrightarrow> \<exists>st. column_stats N L data col stats = Inr st"
  by (auto simp: column_stats_def spread_def Let_def split: if_splits)

lemma stats_loop_Inl: "stats_loop N L data cols stats = Inl e \<Longrightarrow> e = RangeError"
proof (induction cols arbitrary: stats)
  case Nil
  then show ?case by simp
next
  case (Cons c cols)
  then show ?case
    by (auto split: sum.splits dest: column_stats_cases(1))
qed

lemma stats_loop_returns:
  "\<forall>col \<in> set cols. length (column_values N data col) \<le> L \<Longrightarrow>
   \<exists>st. stats_loop N L data cols stats = Inr st"
proof (induction cols arbitrary: stats)
  case Nil
  then show ?case by simp
next
  case (Cons c cols)
  from Cons.prems obtain st' where "column_stats N L data c stats = Inr st'"
    using column_stats_cases(3) [of N data c L stats] by auto
  moreover from Cons.prems obtain st where "stats_loop N L data cols st' = Inr st"
    using Cons.IH [of st'] by auto
  ultimately show ?case by simp
qed

lemma stats_loop_RangeError:
  "col \<in> set cols \<Longrightarrow> L < length (column_values N data col) \<Longrightarrow>
   stats_loop N L data cols stats = Inl RangeError"
proof (induction cols arbitrary: stats)
  case Nil
  then show ?case by simp
next
  case (Cons c cols)
  show ?case
  proof (cases "column_stats N L data c stats")
    case (Inl e)
    then show ?thesis using column_stats_cases(1) [OF Inl] by simp
  next
    case (Inr st')
    then have "c \<noteq> col" using column_stats_cases(2) [OF Inr] Cons.prems(2) by auto
    then have "col \<in> set cols" using Cons.prems(1) by simp
    then show ?thesis using Inr Cons.IH [OF _ Cons.prems(2)] by simp
  qed
qed

lemma analyzeData_Inr_fields:
  assumes "analyzeData N L data = Inr a"
  shows "data \<noteq> []"
    and "columns a = Object_keys (hd data)"
    and "numericalColumns a = filter (isNumerical N data) (columns a)"
    and "categoricalColumns a = filter (\<lambda>c. \<not> isNumerical N data c) (columns a)"
    and "c \<in> set (columns a) \<Longrightarrow>
           dtypes a c = Some (if isNumerical N data c then ''number'' else ''string'')"
    and "c \<in> set (columns a) \<Longrightarrow>
           missingValues a c = Some (length data - length (nonNullValues data c))"
    and "stats_loop N L data (numericalColumns a) Map.empty = Inr (statistics a)"
  using assms
  by (cases data; auto simp: analyzeData_def Let_def fold_classify_numerical
        fold_classify_categorical fold_classify_dtypes fold_classify_columns
        fold_classify_missing split: sum.splits)+

lemma analyzeData_Cons_returns:
  assumes "length (row0 # rest) \<le> L"
  shows "\<exists>a. analyzeData N L (row0 # rest) = Inr a"
proof -
  let ?a1 = "fold (classify_column N (row0 # rest)) (Object_keys row0)
               \<lparr>shape_rows = length (row0 # rest), shape_columns = length (Object_keys row0),
                columns = Object_keys row0, dtypes = Map.empty, missingValues = Map.empty,
                numericalColumns = [], categoricalColumns = [], statistics = Map.empty\<rparr>"
  have "\<forall>col \<in> set (numericalColumns ?a1). length (column_values N (row0 # rest) col) \<le> L"
    using le_trans [OF length_column_values assms] by blast
  then obtain st where
    "stats_loop N L (row0 # rest) (numericalColumns ?a1) Map.empty = Inr st"
    using stats_loop_returns by blast
  then show ?thesis
    by (simp add: analyzeData_def Let_def)
qed

lemma analyzeData_Inr_projr:
  assumes "data \<noteq> []" and "length data \<le> L"
  shows "analyzeData N L data = Inr (projr (analyzeData N L data))"
proof -
  obtain row0 rest where d: "data = row0 # rest" using assms(1) by (cases data) auto
  have "\<exists>a. analyzeData N L data = Inr a"
    using analyzeData_Cons_returns [of row0 rest L N] assms(2) unfolding d by simp
  then show ?thesis by auto
qed

lemma analyzeData_empty_iff:
  "(analyzeData N L data = Inl (Error ''No data to analyze'')) = (data = [])"
  by (cases data) (auto simp: analyzeData_def Let_def split: sum.splits dest: stats_loop_Inl)

text \<open>
  The profiler throws the RangeError as soon as one numeric column has more values
  than the engine accepts call arguments.
\<close>

lemma analyzeData_Cons_RangeError:
  assumes "col \<in> set (Object_keys row0)"
    and "isNumerical N (row0 # rest) col" and "L < length (column_values N (row0 # rest) col)"
  shows "analyzeData N L (row0 # rest) = Inl RangeError"
proof -
  let ?a1 = "fold (classify_column N (row0 # rest)) (Object_keys row0)
               \<lparr>shape_rows = length (row0 # rest), shape_columns = length (Object_keys row0),
                columns = Object_keys row0, dtypes = Map.empty, missingValues = Map.empty,
                numericalColumns = [], categoricalColumns = [], statistics = Map.empty\<rparr>"
  have "col \<in> set (numericalColumns ?a1)"
    using assms(1,2) by (simp add: fold_classify_numerical)
  then have "stats_loop N L (row0 # rest) (numericalColumns ?a1) Map.empty = Inl RangeError"
    by (rule stats_loop_RangeError [OF _ assms(3)])
  then show ?thesis
    by (simp add: analyzeData_def Let_def)
qed

lemma analyzeData_RangeError:
  assumes "data \<noteq> []" and "col \<in> set (Object_keys (hd data))"
    and "isNumerical N data col" and "L < length (column_values N data col)"
  shows "analyzeData N L data = Inl RangeError"
proof -
  obtain row0 rest where d: "data = row0 # rest" using assms(1) by (cases data) auto
  show ?thesis
    using analyzeData_Cons_RangeError [of col row0 N rest L] assms(2,3,4) unfolding d by simp
qed

lemma data_ones_numerical:
  "0 < n \<Longrightarrow> isNumerical N (data_ones n) ''x''"
  "column_values N (data_ones n) ''x'' = replicate n (Num 1)"
  by (simp_all add: isNumerical_def numericalValues_def nonNullValues_def column_values_def
        data_ones_def get_def isNaN_def)

text \<open>
  Claim C9 says that on every dataset with at least one row the profiler returns an
  analysis record and raises nothing. Whatever number \<open>L\<close> of call arguments the
  engine accepts, on the dataset of \<open>L + k + 1\<close> rows with the number 1 in one column
  the profiler throws a RangeError, from \<^verbatim>\<open>Math.min(...values)\<close>.
\<close>

theorem analyzeData_RangeError_on_large_column:
  "data_ones (L + Suc k) \<noteq> [] \<and>
   length (data_ones (L + Suc k)) = L + Suc k \<and>
   analyzeData N L (data_ones (L + Suc k)) = Inl RangeError"
proof -
  have ne: "data_ones (L + Suc k) \<noteq> []"
    by (simp add: data_ones_def)
  have key: "''x'' \<in> set (Object_keys (hd (data_ones (L + Suc k))))"
    by (simp add: data_ones_def Object_keys_def)
  have num: "isNumerical N (data_ones (L + Suc k)) ''x''"
    by (rule data_ones_numerical(1)) simp
  have big: "L < length (column_values N (data_ones (L + Suc k)) ''x'')"
    by (simp add: data_ones_numerical(2))
  have "analyzeData N L (data_ones (L + Suc k)) = Inl RangeError"
    by (rule analyzeData_RangeError [OF ne key num big])
  then show ?thesis using ne by (simp add: data_ones_def)
qed





section \<open>The profiler: column statistics\<close>

lemma js_add_NaN [simp]: "js_add x NaN = NaN"
  by (cases x) simp_all

lemma js_sub_NaN [simp]: "js_sub x NaN = NaN"
  by (simp add: js_sub_def)

lemma fold_add_zero: "fold (\<lambda>val sum. js_add sum (Num 0)) xs (Num 0) = Num 0"
  by (induction xs) simp_all

lemma std_of_undefined_mean:
  "xs \<noteq> [] \<Longrightarrow>
   Math_sqrt (js_div (fold (\<lambda>val sum. js_add sum (Math_pow2 (js_or0 NaN))) ys (Num 0))
                     (Num (real (length xs)))) = Num 0"
  by (simp add: js_or0_def Math_pow2_def fold_add_zero)

lemma column_stats_other:
  "column_stats N L data col stats = Inr st \<Longrightarrow> c \<noteq> col \<Longrightarrow> st c = stats c"
  by (auto simp: column_stats_def spread_def Let_def split: if_splits)

lemma stats_loop_notin:
  "stats_loop N L data cols stats = Inr st \<Longrightarrow> c \<notin> set cols \<Longrightarrow> st c = stats c"
proof (induction cols arbitrary: stats)
  case Nil
  then show ?case by simp
next
  case (Cons c' cols)
  then show ?case
    by (auto split: sum.splits dest: column_stats_other)
qed

lemma column_stats_median:
  "column_stats N L data col stats = Inr st \<Longrightarrow> column_values N data col \<noteq> [] \<Longrightarrow>
   \<exists>s. st col = Some s \<and>
       stat_median s = sort_numeric (column_values N data col) !
                         (length (column_values N data col) div 2)"
  by (auto simp: column_stats_def spread_def Let_def split: if_splits)

lemma stats_loop_median:
  "stats_loop N L data cols stats = Inr st \<Longrightarrow> col \<in> set cols \<Longrightarrow>
   column_values N data col \<noteq> [] \<Longrightarrow>
   \<exists>s. st col = Some s \<and>
       stat_median s = sort_numeric (column_values N data col) !
                         (length (column_values N data col) div 2)"
proof (induction cols arbitrary: stats)
  case Nil
  then show ?case by simp
next
  case (Cons c cols)
  from Cons.prems(1) obtain st' where
    c1: "column_stats N L data c stats = Inr st'" and
    l: "stats_loop N L data cols st' = Inr st"
    by (auto split: sum.splits)
  show ?case
  proof (cases "col \<in> set cols")
    case True
    then show ?thesis by (rule Cons.IH [OF l _ Cons.prems(3)])
  next
    case False
    then have eq: "c = col" using Cons.prems(2) by simp
    have "st col = st' col" by (rule stats_loop_notin [OF l False])
    then show ?thesis
      using column_stats_median [OF c1 [unfolded eq] Cons.prems(3)] by simp
  qed
qed

lemma column_stats_std:
  "stats col = None \<Longrightarrow> column_stats N L data col stats = Inr st \<Longrightarrow> st col = Some s \<Longrightarrow>
   stat_std s = Num 0"
  by (auto simp: column_stats_def spread_def Let_def std_of_undefined_mean
        split: if_splits)

lemma stats_loop_std:
  "distinct cols \<Longrightarrow> \<forall>c \<in> set cols. stats c = None \<Longrightarrow>
   stats_loop N L data cols stats = Inr st \<Longrightarrow> col \<in> set cols \<Longrightarrow> st col = Some s \<Longrightarrow>
   stat_std s = Num 0"
proof (induction cols arbitrary: stats)
  case Nil
  then show ?case by simp
next
  case (Cons c cols)
  from Cons.prems(3) obtain st' where
    c1: "column_stats N L data c stats = Inr st'" and
    l: "stats_loop N L data cols st' = Inr st"
    by (auto split: sum.splits)
  have cn: "c \<notin> set cols" and d: "distinct cols" using Cons.prems(1) by simp_all
  have none: "\<forall>c' \<in> set cols. st' c' = None"
  proof
    fix c' assume m: "c' \<in> set cols"
    then have "c' \<noteq> c" using cn by auto
    then have "st' c' = stats c'" by (rule column_stats_other [OF c1])
    then show "st' c' = None" using Cons.prems(2) m by simp
  qed
  show ?case
  proof (cases "col \<in> set cols")
    case True
    then show ?thesis by (rule Cons.IH [OF d none l _ Cons.prems(5)])
  next
    case False
    then have eq: "c = col" using Cons.prems(4) by simp
    have "st col = st' col" by (rule stats_loop_notin [OF l False])
    then have "st' col = Some s" using Cons.prems(5) by simp
    moreover have "stats col = None" using Cons.prems(2) eq by simp
    ultimately show ?thesis using c1 [unfolded eq] by (rule_tac column_stats_std)
  qed
qed

lemma analyzeData_std_zero:
  assumes "analyzeData N L data = Inr a" and "distinct (columns a)"
    and "statistics a col = Some s"
  shows "stat_std s = Num 0"
proof -
  have l: "stats_loop N L data (numericalColumns a) Map.empty = Inr (statistics a)"
    by (rule analyzeData_Inr_fields(7) [OF assms(1)])
  have d: "distinct (numericalColumns a)"
    using assms(2) analyzeData_Inr_fields(3) [OF assms(1)] by (metis distinct_filter)
  have m: "col \<in> set (numericalColumns a)"
  proof (rule ccontr)
    assume "col \<notin> set (numericalColumns a)"
    then have "statistics a col = None" using stats_loop_notin [OF l] by simp
    with assms(3) show False by simp
  qed
  show ?thesis
    by (rule stats_loop_std [OF d _ l m assms(3)]) simp
qed

lemma column_values_non_missing:
  "\<forall>row \<in> set data. get row col \<noteq> CNull \<and> get row col \<noteq> CStr [] \<Longrightarrow>
   column_values N data col = spec_non_missing_numeric_values N data col"
proof (induction data)
  case Nil
  then show ?case
    by (simp add: column_values_def spec_non_missing_numeric_values_def nonNullValues_def)
next
  case (Cons row data)
  then have IH: "filter (\<lambda>val. \<not> isNaN val) (map (\<lambda>row. Number N (get row col)) data) =
                 filter (\<lambda>val. \<not> isNaN val) (map (Number N)
                   (filter (\<lambda>val. val \<noteq> CNull \<and> val \<noteq> CUndefined \<and> val \<noteq> CStr [])
                     (map (\<lambda>row. get row col) data)))"
    by (simp add: column_values_def spec_non_missing_numeric_values_def nonNullValues_def)
  from Cons.prems have "get row col \<noteq> CNull" "get row col \<noteq> CStr []" by simp_all
  then show ?case using IH
    by (cases "get row col")
       (simp_all add: column_values_def spec_non_missing_numeric_values_def nonNullValues_def isNaN_def)
qed

lemma sort_numeric_nth_mono:
  "i \<le> j \<Longrightarrow> j < length xs \<Longrightarrow> js_key (sort_numeric xs ! i) \<le> js_key (sort_numeric xs ! j)"
proof -
  assume ij: "i \<le> j" and j: "j < length xs"
  have "sorted (map js_key (sort_numeric xs))"
    by (simp add: sort_numeric_def)
  then have "map js_key (sort_numeric xs) ! i \<le> map js_key (sort_numeric xs) ! j"
    using ij j by (simp add: sorted_iff_nth_mono)
  then show ?thesis using ij j by simp
qed

text \<open>
  Claim C2, amended. For a column classified numeric that has no null and no empty
  cell, with at least one non-missing numeric value, the reported median is the element
  at index \<open>n div 2\<close> of the ascending sort of the \<open>n\<close> non-missing numeric
  values: the middle element for odd \<open>n\<close>, and for even \<open>n\<close> the upper of the two
  middle elements (the one at index \<open>n div 2 - 1\<close> is not above it).
\<close>

theorem profiler_median_floor_index:
  assumes "analyzeData N L data = Inr a" and "col \<in> set (numericalColumns a)"
    and "\<forall>row \<in> set data. get row col \<noteq> CNull \<and> get row col \<noteq> CStr []"
    and "spec_non_missing_numeric_values N data col \<noteq> []"
  shows "\<exists>s. statistics a col = Some s \<and>
           (let sorted = sort_numeric (spec_non_missing_numeric_values N data col);
                n = length sorted
            in stat_median s = sorted ! (n div 2) \<and>
               (odd n \<longrightarrow> n = 2 * (n div 2) + 1) \<and>
               (even n \<longrightarrow> n = 2 * (n div 2) \<and>
                  js_key (sorted ! (n div 2 - 1)) \<le> js_key (stat_median s)))"
proof -
  let ?vals = "spec_non_missing_numeric_values N data col"
  have cv: "column_values N data col = ?vals"
    by (rule column_values_non_missing [OF assms(3)])
  have l: "stats_loop N L data (numericalColumns a) Map.empty = Inr (statistics a)"
    by (rule analyzeData_Inr_fields(7) [OF assms(1)])
  from assms(4) have ne: "column_values N data col \<noteq> []" by (simp add: cv)
  obtain s where s: "statistics a col = Some s"
    and med: "stat_median s = sort_numeric ?vals ! (length ?vals div 2)"
    using stats_loop_median [OF l assms(2) ne] by (auto simp: cv)
  have pos: "0 < length ?vals" using assms(4) by simp
  have up: "js_key (sort_numeric ?vals ! (length ?vals div 2 - 1))
              \<le> js_key (sort_numeric ?vals ! (length ?vals div 2))"
    by (rule sort_numeric_nth_mono) (use pos in simp_all)
  show ?thesis
    using s med up by (auto simp: Let_def elim: oddE)
qed

lemma data_1_3_analysis:
  assumes "2 \<le> L"
  shows "analyzeData N L data_1_3 = Inr (projr (analyzeData N L data_1_3))"
    and "columns (projr (analyzeData N L data_1_3)) = [''x'']"
    and "numericalColumns (projr (analyzeData N L data_1_3)) = [''x'']"
proof -
  let ?a = "projr (analyzeData N L data_1_3)"
  show h: "analyzeData N L data_1_3 = Inr ?a"
    by (rule analyzeData_Inr_projr) (use assms in \<open>simp_all add: data_1_3_def\<close>)
  show c: "columns ?a = [''x'']"
    using analyzeData_Inr_fields(2) [OF h] by (simp add: data_1_3_def Object_keys_def)
  have "isNumerical N data_1_3 ''x''"
    by (simp add: isNumerical_def numericalValues_def nonNullValues_def data_1_3_def get_def)
  then show "numericalColumns ?a = [''x'']"
    using analyzeData_Inr_fields(3) [OF h] by (simp add: c)
qed

lemma column_values_data_1_3: "column_values N data_1_3 ''x'' = [Num 1, Num 3]"
  by (simp add: column_values_def data_1_3_def get_def isNaN_def)

lemma statistics_data_1_3:
  assumes "2 \<le> L"
  shows "map_option stat_std (statistics (projr (analyzeData N L data_1_3)) ''x'') = Some (Num 0)"
proof -
  have "statistics (projr (analyzeData N L data_1_3)) =
          projr (stats_loop N L data_1_3 [''x''] Map.empty)"
    using analyzeData_Inr_fields(7) [OF data_1_3_analysis(1) [OF assms]]
    by (simp add: data_1_3_analysis(3) [OF assms])
  then show ?thesis
    using assms
    by (simp add: column_stats_def spread_def column_values_data_1_3 Let_def sort_numeric_def
          js_or0_def Math_pow2_def)
qed

text \<open>
  Claim C1 says that the reported standard deviation of a numeric column is the
  population standard deviation of its values. On the column with the values 1 and 3
  the profiler reports 0, whatever the engine's argument limit from 2 upwards, and the
  population standard deviation is 1. (By \<open>analyzeData_std_zero\<close> the reported value
  is 0 on every dataset.)
\<close>

theorem profiler_std_not_population_std:
  "map_option stat_std (statistics (projr (analyzeData N (Suc (Suc L)) data_1_3)) ''x'')
     = Some (Num 0) \<and>
   spec_population_std (column_values N data_1_3 ''x'') = Num 1"
proof -
  have "map_option stat_std (statistics (projr (analyzeData N (Suc (Suc L)) data_1_3)) ''x'')
          = Some (Num 0)"
    by (rule statistics_data_1_3) simp
  moreover have "spec_population_std (column_values N data_1_3 ''x'') = Num 1"
    by (simp add: column_values_data_1_3 spec_population_std_def Let_def js_sub_def Math_pow2_def)
  ultimately show ?thesis by simp
qed

lemma data_1234_analysis:
  assumes "4 \<le> L"
  shows "analyzeData N L data_1234 = Inr (projr (analyzeData N L data_1234))"
    and "columns (projr (analyzeData N L data_1234)) = [''x'']"
    and "numericalColumns (projr (analyzeData N L data_1234)) = [''x'']"
proof -
  let ?a = "projr (analyzeData N L data_1234)"
  show h: "analyzeData N L data_1234 = Inr ?a"
    by (rule analyzeData_Inr_projr) (use assms in \<open>simp_all add: data_1234_def\<close>)
  show c: "columns ?a = [''x'']"
    using analyzeData_Inr_fields(2) [OF h] by (simp add: data_1234_def Object_keys_def)
  have "isNumerical N data_1234 ''x''"
    by (simp add: isNumerical_def numericalValues_def nonNullValues_def data_1234_def get_def)
  then show "numericalColumns ?a = [''x'']"
    using analyzeData_Inr_fields(3) [OF h] by (simp add: c)
qed

lemma values_data_1234:
  "column_values N data_1234 ''x'' = [Num 1, Num 2, Num 3, Num 4]"
  "spec_non_missing_numeric_values N data_1234 ''x'' = [Num 1, Num 2, Num 3, Num 4]"
  by (simp_all add: column_values_def spec_non_missing_numeric_values_def nonNullValues_def
        data_1234_def get_def isNaN_def)

lemma sort_numeric_1234:
  "sort_numeric [Num 1, Num 2, Num 3, Num 4] = [Num 1, Num 2, Num 3, Num 4]"
  by (simp add: sort_numeric_def)

lemma median_data_1234:
  assumes "4 \<le> L"
  shows "map_option stat_median (statistics (projr (analyzeData N L data_1234)) ''x'')
           = Some (Num 3)"
proof -
  have "statistics (projr (analyzeData N L data_1234)) =
          projr (stats_loop N L data_1234 [''x''] Map.empty)"
    using analyzeData_Inr_fields(7) [OF data_1234_analysis(1) [OF assms]]
    by (simp add: data_1234_analysis(3) [OF assms])
  then show ?thesis
    using assms
    by (simp add: column_stats_def spread_def values_data_1234 Let_def sort_numeric_1234)
qed

text \<open>
  Claim C2 as stated (the lower of the two middle elements for an even count) fails on
  the column with the values 1, 2, 3, 4: the lower middle element is 2, the reported
  median is 3.
\<close>

theorem profiler_median_lower_middle_counterexample:
  "''x'' \<in> set (numericalColumns (projr (analyzeData Number_decimal 65536 data_1234))) \<and>
   length (spec_non_missing_numeric_values Number_decimal data_1234 ''x'') = 4 \<and>
   sort_numeric (spec_non_missing_numeric_values Number_decimal data_1234 ''x'') ! (4 div 2 - 1) = Num 2 \<and>
   map_option stat_median (statistics (projr (analyzeData Number_decimal 65536 data_1234)) ''x'')
     = Some (Num 3)"
proof -
  have L: "(4::nat) \<le> 65536" by simp
  show ?thesis
    by (simp add: median_data_1234 [OF L] data_1234_analysis(3) [OF L] values_data_1234
          sort_numeric_1234)
qed

theorem profiler_median_floor_index_witness:
  "analyzeData Number_decimal 65536 data_1234 =
     Inr (projr (analyzeData Number_decimal 65536 data_1234)) \<and>
   ''x'' \<in> set (numericalColumns (projr (analyzeData Number_decimal 65536 data_1234))) \<and>
   CNull \<notin> set (map (\<lambda>row. get row ''x'') data_1234) \<and>
   CStr [] \<notin> set (map (\<lambda>row. get row ''x'') data_1234) \<and>
   spec_non_missing_numeric_values Number_decimal data_1234 ''x'' \<noteq> [] \<and>
   (\<exists>s. statistics (projr (analyzeData Number_decimal 65536 data_1234)) ''x'' = Some s \<and>
        stat_median s = Num 3)"
proof -
  have L: "(4::nat) \<le> 65536" by simp
  have h1: "analyzeData Number_decimal 65536 data_1234 =
              Inr (projr (analyzeData Number_decimal 65536 data_1234))"
    by (rule data_1234_analysis(1) [OF L])
  have h2: "''x'' \<in> set (numericalColumns (projr (analyzeData Number_decimal 65536 data_1234)))"
    by (simp add: data_1234_analysis(3) [OF L])
  have h3: "\<forall>row \<in> set data_1234. get row ''x'' \<noteq> CNull \<and> get row ''x'' \<noteq> CStr []"
    by (simp add: data_1234_def get_def)
  have h4: "spec_non_missing_numeric_values Number_decimal data_1234 ''x'' \<noteq> []"
    by (simp add: values_data_1234)
  have h3': "CNull \<notin> set (map (\<lambda>row. get row ''x'') data_1234)"
            "CStr [] \<notin> set (map (\<lambda>row. get row ''x'') data_1234)"
    by (simp_all add: data_1234_def get_def)
  show ?thesis
    using h1 h2 h3' h4 profiler_median_floor_index [OF h1 h2 h3 h4]
    by (auto simp: values_data_1234 sort_numeric_1234 Let_def)
qed

section \<open>Problem-type detection\<close>

lemma fold_Set_add:
  "distinct acc \<Longrightarrow>
   distinct (fold Set_add xs acc) \<and> set (fold Set_add xs acc) = set acc \<union> set xs"
  by (induction xs arbitrary: acc) (auto simp: Set_add_def)

lemma Set_values_props:
  "distinct (Set_values xs)" "set (Set_values xs) = set xs"
  using fold_Set_add [of "[]" xs] by (simp_all add: Set_values_def)





lemma target_row_values:
  "map (\<lambda>row. get row ''t'') (map target_row rs) = map (\<lambda>r. CNum (Num r)) rs"
  by (simp add: target_row_def get_def)










section \<open>Feature encoding\<close>

lemma fold_push_feature:
  "fold (push_feature N row) cols st =
     (fst st @ List.map_filter (\<lambda>col. feature_value N (get row col)) cols,
      snd st \<and> (\<forall>col \<in> set cols. feature_value N (get row col) \<noteq> None))"
proof (induction cols arbitrary: st)
  case Nil
  then show ?case by (simp add: List.map_filter_simps)
next
  case (Cons c cols)
  show ?case
    by (simp only: fold_simps comp_apply Cons.IH)
       (cases "feature_value N (get row c)"; simp add: push_feature_def List.map_filter_simps)
qed

text \<open>The rows the encoder keeps, and what it stores for each.\<close>

lemma encode_row_eq:
  "encode_row N fcs t row acc =
     (if (\<forall>col \<in> set fcs. feature_value N (get row col) \<noteq> None) \<and>
         target_value N (get row t) \<noteq> None
      then acc\<lparr>features := features acc @ [map (\<lambda>col. the (feature_value N (get row col))) fcs],
               targets := targets acc @ [the (target_value N (get row t))]\<rparr>
      else acc)"
proof -
  have "(\<forall>col \<in> set fcs. feature_value N (get row col) \<noteq> None) \<Longrightarrow>
        List.map_filter (\<lambda>col. feature_value N (get row col)) fcs =
          map (\<lambda>col. the (feature_value N (get row col))) fcs"
    by (induction fcs) (auto simp: List.map_filter_simps)
  then show ?thesis
    by (auto simp: encode_row_def fold_push_feature Let_def split: option.splits)
qed

lemma prepareFeatures_rows:
  "prepareFeatures N data fcs t =
     \<lparr>features = map (\<lambda>row. map (\<lambda>col. the (feature_value N (get row col))) fcs)
                    (filter (\<lambda>row. (\<forall>col \<in> set fcs. feature_value N (get row col) \<noteq> None) \<and>
                                   target_value N (get row t) \<noteq> None) data),
      targets = map (\<lambda>row. the (target_value N (get row t)))
                    (filter (\<lambda>row. (\<forall>col \<in> set fcs. feature_value N (get row col) \<noteq> None) \<and>
                                   target_value N (get row t) \<noteq> None) data)\<rparr>"
proof -
  have "fold (encode_row N fcs t) data acc =
     \<lparr>features = features acc @ map (\<lambda>row. map (\<lambda>col. the (feature_value N (get row col))) fcs)
                    (filter (\<lambda>row. (\<forall>col \<in> set fcs. feature_value N (get row col) \<noteq> None) \<and>
                                   target_value N (get row t) \<noteq> None) data),
      targets = targets acc @ map (\<lambda>row. the (target_value N (get row t)))
                    (filter (\<lambda>row. (\<forall>col \<in> set fcs. feature_value N (get row col) \<noteq> None) \<and>
                                   target_value N (get row t) \<noteq> None) data)\<rparr>" for acc
  proof (induction data arbitrary: acc)
    case Nil
    then show ?case by simp
  next
    case (Cons row data)
    show ?case
      by (simp only: fold_simps comp_apply Cons.IH) (simp add: encode_row_eq)
  qed
  then show ?thesis by (simp add: prepareFeatures_def)
qed

text \<open>
  Claim C4 says that a row whose target is null, undefined or the empty text is left
  out of the feature matrix and the target vector. The row with feature 1 and the empty
  text as target is kept: its features are stored, and its target is stored as
  \<^verbatim>\<open>Number('')\<close>, which is 0.
\<close>

theorem prepareFeatures_keeps_empty_target:
  "prepareFeatures Number_decimal data_empty_target [''x''] ''y''
     = \<lparr>features = [[Num 1]], targets = [Num 0]\<rparr> \<and>
   features (prepareFeatures N data_empty_target [''x''] ''y'') = [[Num 1]] \<and>
   length (targets (prepareFeatures N data_empty_target [''x''] ''y'')) = 1"
  by (simp add: prepareFeatures_rows data_empty_target_def get_def Number_decimal_def isNaN_def)

section \<open>The most frequent label\<close>

lemma map_of_None_iff_fst: "(map_of cs v = None) = (v \<notin> set (map fst cs))"
  by (simp add: map_of_eq_None_iff)

lemma count_label_keys: "map fst (count_label v cs) = Set_add v (map fst cs)"
proof (cases "map_of cs v")
  case None
  then show ?thesis
    using map_of_None_iff_fst [of cs v] by (simp add: count_label_def Set_add_def)
next
  case (Some c)
  have "map fst (map (\<lambda>kv. if fst kv = v then (fst kv, snd kv + 1) else kv) cs) = map fst cs"
    by (induction cs) auto
  then show ?thesis
    using Some map_of_None_iff_fst [of cs v] by (simp add: count_label_def Set_add_def)
qed

lemma map_of_bump:
  "map_of (map (\<lambda>kv. if fst kv = v then (fst kv, snd kv + 1) else kv) cs) k =
     (if k = v then map_option Suc (map_of cs k) else map_of cs k)"
  by (induction cs) auto

lemma count_label_lookup:
  "map_of (count_label v cs) k =
     (if k = v then Some (case map_of cs v of None \<Rightarrow> 1 | Some c \<Rightarrow> Suc c) else map_of cs k)"
proof (cases "map_of cs v")
  case None
  then show ?thesis by (auto simp: count_label_def map_add_def split: option.splits)
next
  case (Some c)
  then show ?thesis by (simp add: count_label_def map_of_bump)
qed

lemma fold_count_label_keys:
  "map fst (fold count_label y cs) = fold Set_add y (map fst cs)"
  by (induction y arbitrary: cs) (simp_all add: count_label_keys)

lemma fold_count_label_lookup:
  "map_of (fold count_label y cs) k =
     (case map_of cs k of
        None \<Rightarrow> if k \<in> set y then Some (count_list y k) else None
      | Some c \<Rightarrow> Some (c + count_list y k))"
proof (induction y arbitrary: cs)
  case Nil
  then show ?case by (simp split: option.splits)
next
  case (Cons v y)
  show ?case
    by (simp only: fold_simps comp_apply Cons.IH)
       (auto simp: count_label_lookup split: option.splits)
qed

lemma counts_of_labels:
  "map fst (fold count_label y []) = Set_values y"
  "map_of (fold count_label y []) k = (if k \<in> set y then Some (count_list y k) else None)"
  by (simp_all add: fold_count_label_keys fold_count_label_lookup Set_values_def)

lemma set_sort_numeric [simp]: "set (sort_numeric xs) = set xs"
  by (simp add: sort_numeric_def)

lemma set_own_keys: "set (own_keys cs) = set (map fst cs)"
  by (auto simp: own_keys_def)

text \<open>The reduction keeps the last key whose count is maximal.\<close>

lemma fold_more_common_last_max:
  assumes "\<forall>k \<in> set (k0 # ks). map_of counts k = Some (f k)"
  shows "\<exists>i < length (k0 # ks).
           (k0 # ks) ! i = fold (more_common counts) ks k0 \<and>
           (\<forall>j < length (k0 # ks). f ((k0 # ks) ! j) \<le> f ((k0 # ks) ! i)) \<and>
           (\<forall>j. i < j \<and> j < length (k0 # ks) \<longrightarrow> f ((k0 # ks) ! j) < f ((k0 # ks) ! i))"
  using assms
proof (induction ks rule: rev_induct)
  case Nil
  then show ?case by simp
next
  case (snoc b ks)
  let ?xs = "k0 # ks"
  let ?r = "fold (more_common counts) ks k0"
  from snoc.prems have pre: "\<forall>k \<in> set ?xs. map_of counts k = Some (f k)" by simp
  from snoc.IH [OF pre] obtain i where i: "i < length ?xs" and r: "?xs ! i = ?r"
    and mx: "\<forall>j < length ?xs. f (?xs ! j) \<le> f (?xs ! i)"
    and last: "\<forall>j. i < j \<and> j < length ?xs \<longrightarrow> f (?xs ! j) < f (?xs ! i)"
    by blast
  have rin: "?r \<in> set ?xs" using i r by (metis nth_mem)
  have cr: "map_of counts ?r = Some (f ?r)" using pre rin by blast
  have cb: "map_of counts b = Some (f b)" using snoc.prems by simp
  have step: "fold (more_common counts) (ks @ [b]) k0 = (if f b < f ?r then ?r else b)"
    by (simp add: more_common_def cr cb)
  have nth_old: "\<And>j. j < length ?xs \<Longrightarrow> (k0 # ks @ [b]) ! j = ?xs ! j"
    by (metis append_Cons nth_append)
  have nth_new: "(k0 # ks @ [b]) ! length ?xs = b"
    by (metis append_Cons nth_append_length)
  show ?case
  proof (cases "f b < f ?r")
    case True
    have "i < length (k0 # ks @ [b])" using i by simp
    moreover have "(k0 # ks @ [b]) ! i = fold (more_common counts) (ks @ [b]) k0"
      using step True r nth_old [OF i] by simp
    moreover have "\<forall>j < length (k0 # ks @ [b]). f ((k0 # ks @ [b]) ! j) \<le> f ((k0 # ks @ [b]) ! i)"
    proof (intro allI impI)
      fix j assume "j < length (k0 # ks @ [b])"
      then consider "j < length ?xs" | "j = length ?xs" by fastforce
      then show "f ((k0 # ks @ [b]) ! j) \<le> f ((k0 # ks @ [b]) ! i)"
      proof cases
        case 1
        then show ?thesis using mx nth_old [OF 1] nth_old [OF i] by simp
      next
        case 2
        then show ?thesis using True r nth_new nth_old [OF i] by simp
      qed
    qed
    moreover have "\<forall>j. i < j \<and> j < length (k0 # ks @ [b])
                     \<longrightarrow> f ((k0 # ks @ [b]) ! j) < f ((k0 # ks @ [b]) ! i)"
    proof (intro allI impI)
      fix j assume j: "i < j \<and> j < length (k0 # ks @ [b])"
      then consider "j < length ?xs" | "j = length ?xs" by fastforce
      then show "f ((k0 # ks @ [b]) ! j) < f ((k0 # ks @ [b]) ! i)"
      proof cases
        case 1
        then show ?thesis using last j nth_old [OF 1] nth_old [OF i] by simp
      next
        case 2
        then show ?thesis using True r nth_new nth_old [OF i] by simp
      qed
    qed
    ultimately show ?thesis by blast
  next
    case False
    let ?i = "length ?xs"
    have "?i < length (k0 # ks @ [b])" by simp
    moreover have "(k0 # ks @ [b]) ! ?i = fold (more_common counts) (ks @ [b]) k0"
      using step False nth_new by simp
    moreover have "\<forall>j < length (k0 # ks @ [b]). f ((k0 # ks @ [b]) ! j) \<le> f ((k0 # ks @ [b]) ! ?i)"
    proof (intro allI impI)
      fix j assume "j < length (k0 # ks @ [b])"
      then consider "j < length ?xs" | "j = length ?xs" by fastforce
      then show "f ((k0 # ks @ [b]) ! j) \<le> f ((k0 # ks @ [b]) ! ?i)"
      proof cases
        case 1
        have "f (?xs ! j) \<le> f ?r" using mx 1 r by simp
        then show ?thesis using False nth_old [OF 1] nth_new by simp
      next
        case 2
        then show ?thesis by simp
      qed
    qed
    moreover have "\<forall>j. ?i < j \<and> j < length (k0 # ks @ [b])
                     \<longrightarrow> f ((k0 # ks @ [b]) ! j) < f ((k0 # ks @ [b]) ! ?i)"
      by simp
    ultimately show ?thesis by blast
  qed
qed

text \<open>
  The keys of the table of counts: the labels that are array indices in ascending
  order, then the other labels in order of first occurrence.
\<close>

lemma own_keys_of_labels:
  "own_keys (fold count_label y []) =
     sort_numeric (filter is_array_index (Set_values y)) @
     filter (\<lambda>k. \<not> is_array_index k) (Set_values y)"
  by (simp add: own_keys_def counts_of_labels(1))

text \<open>The returned label, by the keys of the table of counts.\<close>

lemma getMostCommonValue_own_keys:
  assumes "y \<noteq> []"
  shows "\<exists>v i. getMostCommonValue y = Inr v \<and> v \<in> set y \<and>
           (\<forall>w. count_list y w \<le> count_list y v) \<and>
           i < length (own_keys (fold count_label y [])) \<and>
           own_keys (fold count_label y []) ! i = v \<and>
           (\<forall>j. i < j \<and> j < length (own_keys (fold count_label y []))
                  \<longrightarrow> count_list y (own_keys (fold count_label y []) ! j) < count_list y v)"
proof -
  let ?counts = "fold count_label y []"
  have sk: "set (own_keys ?counts) = set y"
    using set_own_keys [of ?counts] Set_values_props(2) [of y]
    by (simp add: counts_of_labels(1))
  then have "own_keys (fold count_label y []) \<noteq> []" using assms by auto
  then obtain k0 ks where ks: "own_keys (fold count_label y []) = k0 # ks"
    by (cases "own_keys (fold count_label y [])") auto
  have look: "\<forall>k \<in> set (k0 # ks). map_of ?counts k = Some (count_list y k)"
    using sk ks by (simp add: counts_of_labels(2))
  from fold_more_common_last_max [OF look] obtain i where
    i: "i < length (k0 # ks)" and
    r: "(k0 # ks) ! i = fold (more_common ?counts) ks k0" and
    mx: "\<forall>j < length (k0 # ks). count_list y ((k0 # ks) ! j) \<le> count_list y ((k0 # ks) ! i)" and
    last: "\<forall>j. i < j \<and> j < length (k0 # ks)
             \<longrightarrow> count_list y ((k0 # ks) ! j) < count_list y ((k0 # ks) ! i)"
    by blast
  let ?v = "fold (more_common ?counts) ks k0"
  have res: "getMostCommonValue y = Inr ?v"
    by (simp add: getMostCommonValue_def Let_def ks)
  have vin: "?v \<in> set y" using i r sk ks by (metis nth_mem)
  have maxi: "count_list y w \<le> count_list y ?v" for w
  proof (cases "w \<in> set y")
    case True
    then have "w \<in> set (k0 # ks)" using sk ks by simp
    then obtain j where "j < length (k0 # ks)" "(k0 # ks) ! j = w"
      by (meson in_set_conv_nth)
    then show ?thesis using mx r by auto
  next
    case False
    then show ?thesis by (simp add: count_list_0_iff)
  qed
  have all_le: "\<forall>w. count_list y w \<le> count_list y ?v"
    using maxi by blast
  have later: "\<forall>j. i < j \<and> j < length (k0 # ks)
                 \<longrightarrow> count_list y ((k0 # ks) ! j) < count_list y ?v"
    using last r by simp
  have "getMostCommonValue y = Inr ?v \<and> ?v \<in> set y \<and>
        (\<forall>w. count_list y w \<le> count_list y ?v) \<and>
        i < length (own_keys (fold count_label y [])) \<and>
        own_keys (fold count_label y []) ! i = ?v \<and>
        (\<forall>j. i < j \<and> j < length (own_keys (fold count_label y []))
               \<longrightarrow> count_list y (own_keys (fold count_label y []) ! j) < count_list y ?v)"
    unfolding ks using res vin all_le i r later by simp
  then show ?thesis by blast
qed

lemma is_array_index_small [simp]: "is_array_index (Num 0)" "is_array_index (Num 1)"
  by (simp_all add: is_array_index_def)

lemma getMostCommonValue_0101: "getMostCommonValue labels_0101 = Inr (Num 1)"
  by (simp add: getMostCommonValue_def labels_0101_def count_label_def own_keys_def
        sort_numeric_def more_common_def Let_def)

text \<open>
  Claim C6 as stated (on a tie, the label that occurs first) fails on the labels
  0, 1, 0, 1: both occur twice, 0 occurs first, and 1 is returned.
\<close>

theorem getMostCommonValue_first_counterexample:
  "labels_0101 \<noteq> [] \<and>
   count_list labels_0101 (Num 0) = 2 \<and> count_list labels_0101 (Num 1) = 2 \<and>
   hd labels_0101 = Num 0 \<and>
   getMostCommonValue labels_0101 = Inr (Num 1)"
  by (simp add: getMostCommonValue_0101) (simp add: labels_0101_def)

text \<open>The array indices are the whole numbers from 0 to \<open>2\<^sup>3\<^sup>2 - 2\<close>.\<close>

lemma is_array_index_iff: "is_array_index k = (\<exists>n < 4294967295. k = Num (real n))"
proof (cases k)
  case (Num r)
  show ?thesis
  proof
    assume "is_array_index k"
    then have r: "0 \<le> r" "r = of_int \<lfloor>r\<rfloor>" "r < 4294967295"
      using Num by (simp_all add: is_array_index_def)
    have "real (nat \<lfloor>r\<rfloor>) = r" using r(1,2) by simp
    moreover have "nat \<lfloor>r\<rfloor> < 4294967295" using r(1,3) by linarith
    ultimately show "\<exists>n < 4294967295. k = Num (real n)" using Num by metis
  next
    assume "\<exists>n < 4294967295. k = Num (real n)"
    then obtain n :: nat where "n < 4294967295" "r = real n" using Num by auto
    then show "is_array_index k" using Num by (simp add: is_array_index_def)
  qed
qed (simp_all add: is_array_index_def)

text \<open>
  Claim C6, amended. On every non-empty label list the returned label occurs in the
  list with the maximal count; where several labels share that count, the returned one
  is the last of them in this order of the distinct labels: first the labels that are
  array indices (the whole numbers from 0 to \<open>2\<^sup>3\<^sup>2 - 2\<close>) in ascending numeric
  order, then every other label in order of first occurrence. Every label after the
  returned one in that order has a strictly smaller count.
\<close>

theorem getMostCommonValue_last_maximum:
  assumes "y \<noteq> []"
  shows "\<exists>v i. getMostCommonValue y = Inr v \<and> v \<in> set y \<and>
           (\<forall>w. count_list y w \<le> count_list y v) \<and>
           (let keys =
                  sort_numeric
                    (filter (\<lambda>k. \<exists>n < 4294967295. k = Num (real n)) (Set_values y)) @
                  filter (\<lambda>k. \<not> (\<exists>n < 4294967295. k = Num (real n))) (Set_values y)
            in i < length keys \<and> keys ! i = v \<and>
               (\<forall>j. i < j \<and> j < length keys
                      \<longrightarrow> count_list y (keys ! j) < count_list y v))"
  using getMostCommonValue_own_keys [OF assms]
  unfolding own_keys_of_labels Let_def is_array_index_iff [symmetric] .

lemma getMostCommonValue_beyond_index:
  "getMostCommonValue [Num 4294967296, Num 4294967295] = Inr (Num 4294967295)"
  "getMostCommonValue [Num 4294967295, Num 4294967294] = Inr (Num 4294967295)"
  by (simp_all add: getMostCommonValue_def count_label_def own_keys_def is_array_index_def
        sort_numeric_def more_common_def Let_def)

theorem getMostCommonValue_last_maximum_witness:
  "labels_1010 \<noteq> [] \<and>
   hd labels_1010 = Num 1 \<and>
   count_list labels_1010 (Num 0) = 2 \<and> count_list labels_1010 (Num 1) = 2 \<and>
   sort_numeric (filter is_array_index (Set_values labels_1010)) @
     filter (\<lambda>k. \<not> is_array_index k) (Set_values labels_1010) = [Num 0, Num 1] \<and>
   getMostCommonValue labels_1010 = Inr (Num 1) \<and>
   getMostCommonValue [Num 4294967296, Num 4294967295] = Inr (Num 4294967295) \<and>
   getMostCommonValue [Num 4294967295, Num 4294967294] = Inr (Num 4294967295)"
proof -
  have ne: "labels_1010 \<noteq> []" by (simp add: labels_1010_def)
  have keys: "sort_numeric (filter is_array_index (Set_values labels_1010)) @
                filter (\<lambda>k. \<not> is_array_index k) (Set_values labels_1010) = [Num 0, Num 1]"
    by (simp add: labels_1010_def Set_values_def Set_add_def sort_numeric_def)
  have c: "count_list labels_1010 (Num 0) = 2" "count_list labels_1010 (Num 1) = 2"
    by (simp_all add: labels_1010_def)
  from getMostCommonValue_last_maximum [OF ne]
  obtain v i where r: "getMostCommonValue labels_1010 = Inr v"
    and i: "i < length [Num 0, Num 1 :: jsnum]" and v: "[Num 0, Num 1] ! i = v"
    and later: "\<forall>j. i < j \<and> j < length [Num 0, Num 1 :: jsnum]
                  \<longrightarrow> count_list labels_1010 ([Num 0, Num 1] ! j) < count_list labels_1010 v"
    unfolding Let_def is_array_index_iff [symmetric] keys by blast
  have "i \<noteq> 0"
  proof
    assume "i = 0"
    then have "i < 1 \<and> 1 < length [Num 0, Num 1 :: jsnum]" by simp
    then have "count_list labels_1010 ([Num 0, Num 1] ! 1) < count_list labels_1010 v"
      using later by blast
    then show False using v \<open>i = 0\<close> c by simp
  qed
  then have "i = 1" using i by simp
  then have "getMostCommonValue labels_1010 = Inr (Num 1)" using r v by simp
  then show ?thesis
    using ne keys c getMostCommonValue_beyond_index by (simp add: labels_1010_def)
qed

section \<open>The training pipeline\<close>

lemma splitIndex_eq: "splitIndex X = (4 * length X) div 5"
proof -
  have "real (length X) * 0.8 = real (4 * length X) / real 5"
    by simp
  then have "\<lfloor>real (length X) * 0.8\<rfloor> = int ((4 * length X) div 5)"
    by (simp only: floor_divide_of_nat_eq)
  then show ?thesis by (simp add: splitIndex_def)
qed

lemma splitIndex_le: "splitIndex X \<le> length X"
  by (simp add: splitIndex_eq)

lemma trainModel_Inr:
  assumes "trainModel lib toStr startTime endTime X y ptype modelType = Inr r"
  shows "dispatch lib (take (splitIndex X) X) (take (splitIndex X) y) (drop (splitIndex X) X)
           ptype modelType = Inr (predictions r, model r)"
    and "actualValues r = drop (splitIndex X) y"
  using assms by (auto simp: trainModel_def Let_def split: sum.splits prod.splits)

text \<open>
  Claim C8. The pipeline trains on the first \<open>floor (0.8 * n)\<close> rows of \<open>X\<close> and
  \<open>y\<close>, in their order, and holds out the remaining rows, in their order: the model
  is fitted on exactly those rows and predicts exactly the held-out rows, whose targets
  are the actual values of the result. The split depends on \<open>X\<close> and \<open>y\<close> alone:
  any other run on the same \<open>X\<close> and \<open>y\<close> holds out the same rows.
\<close>

theorem trainModel_split:
  assumes "trainModel lib toStr startTime endTime X y ptype modelType = Inr r"
  shows "splitIndex X = nat \<lfloor>0.8 * real (length X)\<rfloor> \<and>
         splitIndex X = (4 * length X) div 5 \<and>
         dispatch lib (take (splitIndex X) X) (take (splitIndex X) y) (drop (splitIndex X) X)
           ptype modelType = Inr (predictions r, model r) \<and>
         actualValues r = drop (splitIndex X) y \<and>
         length (take (splitIndex X) X) = splitIndex X \<and>
         take (splitIndex X) X @ drop (splitIndex X) X = X \<and>
         take (splitIndex X) y @ drop (splitIndex X) y = y \<and>
         (\<forall>lib' toStr' startTime' endTime' ptype' modelType' r'.
            trainModel lib' toStr' startTime' endTime' X y ptype' modelType' = Inr r'
              \<longrightarrow> actualValues r' = actualValues r)"
proof -
  have "splitIndex X = nat \<lfloor>0.8 * real (length X)\<rfloor>"
    by (simp add: splitIndex_def mult.commute)
  moreover have "length (take (splitIndex X) X) = splitIndex X"
    using splitIndex_le [of X] by simp
  moreover have "\<forall>lib' toStr' startTime' endTime' ptype' modelType' r'.
            trainModel lib' toStr' startTime' endTime' X y ptype' modelType' = Inr r'
              \<longrightarrow> actualValues r' = actualValues r"
    using trainModel_Inr(2) [OF assms] trainModel_Inr(2) by simp
  ultimately show ?thesis
    using trainModel_Inr [OF assms] splitIndex_eq [of X] by simp
qed

lemma splitIndex_X5: "splitIndex X5 = 4"
  by (simp add: splitIndex_eq X5_def)

lemma trainModel_X5:
  "trainModel counting_library toString_integer 0 1 X5 y5 Classification ''decisiontree'' =
     Inr (projr (trainModel counting_library toString_integer 0 1 X5 y5 Classification ''decisiontree''))"
  by (simp add: trainModel_def Let_def dispatch_def counting_library_def train_count_def)

theorem trainModel_split_witness:
  "trainModel counting_library toString_integer 0 1 X5 y5 Classification ''decisiontree'' =
     Inr (projr (trainModel counting_library toString_integer 0 1 X5 y5 Classification ''decisiontree'')) \<and>
   splitIndex X5 = 4 \<and>
   take (splitIndex X5) X5 = [[Num 1], [Num 2], [Num 3], [Num 4]] \<and>
   drop (splitIndex X5) X5 = [[Num 5]] \<and>
   predictions (projr (trainModel counting_library toString_integer 0 1 X5 y5
                  Classification ''decisiontree'')) = [Num 4] \<and>
   actualValues (projr (trainModel counting_library toString_integer 0 1 X5 y5
                  Classification ''decisiontree'')) = [Num 1]"
proof -
  have d: "dispatch counting_library (take 4 X5) (take 4 y5) (drop 4 X5) Classification
             ''decisiontree'' = Inr ([Num 4], ''Decision Tree'')"
    by (simp add: dispatch_def counting_library_def train_count_def X5_def)
  note split = trainModel_split [OF trainModel_X5]
  have p: "dispatch counting_library (take (splitIndex X5) X5) (take (splitIndex X5) y5)
             (drop (splitIndex X5) X5) Classification ''decisiontree'' =
           Inr (predictions (projr (trainModel counting_library toString_integer 0 1 X5 y5
                   Classification ''decisiontree'')),
                model (projr (trainModel counting_library toString_integer 0 1 X5 y5
                   Classification ''decisiontree'')))"
    by (rule split [THEN conjunct2, THEN conjunct2, THEN conjunct1])
  have a: "actualValues (projr (trainModel counting_library toString_integer 0 1 X5 y5
                   Classification ''decisiontree'')) = drop (splitIndex X5) y5"
    by (rule split [THEN conjunct2, THEN conjunct2, THEN conjunct2, THEN conjunct1])
  have preds: "predictions (projr (trainModel counting_library toString_integer 0 1 X5 y5
                  Classification ''decisiontree'')) = [Num 4]"
    using p unfolding splitIndex_X5 d by simp
  have "take 4 X5 = [[Num 1], [Num 2], [Num 3], [Num 4]]" "drop 4 X5 = [[Num 5]]"
       "drop 4 y5 = [Num 1]"
    by (simp_all add: X5_def y5_def)
  then show ?thesis
    using trainModel_X5 preds a by (simp add: splitIndex_X5)
qed

text \<open>
  Claim C10. With a model token that matches no entry of the dispatch table for the
  problem type, the pipeline raises nothing: it returns a results record whose model
  name is the empty string and whose predictions are the empty list.
\<close>

theorem trainModel_unmatched_token:
  assumes "ptype = Regression \<longrightarrow> modelType \<notin> {''linear'', ''auto'', ''randomforest''}"
    and "ptype = Classification
           \<longrightarrow> modelType \<notin> {''logistic'', ''auto'', ''decisiontree'', ''randomforest''}"
  shows "\<exists>r. trainModel lib toStr startTime endTime X y ptype modelType = Inr r \<and>
             model r = [] \<and> predictions r = []"
proof -
  have "dispatch lib (take (splitIndex X) X) (take (splitIndex X) y) (drop (splitIndex X) X)
          ptype modelType = Inr ([], [])"
    using assms by (cases ptype) (simp_all add: dispatch_def)
  then show ?thesis
    by (simp add: trainModel_def Let_def)
qed

theorem trainModel_unmatched_token_witness:
  "''linear'' \<notin> {''logistic'', ''auto'', ''decisiontree'', ''randomforest''} \<and>
   (\<exists>r. trainModel counting_library toString_integer 0 1 X5 y5 Classification ''linear'' = Inr r \<and>
        model r = [] \<and> predictions r = [])"
proof -
  have h1: "Classification = Regression \<longrightarrow> ''linear'' \<notin> {''linear'', ''auto'', ''randomforest''}"
    by simp
  have h2: "Classification = Classification
              \<longrightarrow> ''linear'' \<notin> {''logistic'', ''auto'', ''decisiontree'', ''randomforest''}"
    by simp
  have h: "''linear'' \<notin> {''logistic'', ''auto'', ''decisiontree'', ''randomforest''}"
    by simp
  show ?thesis
    by (intro conjI h trainModel_unmatched_token [OF h1 h2])
qed

section \<open>The confusion matrix\<close>

lemma indexOf_Some_iff:
  "distinct xs \<Longrightarrow>
   (indexOf xs v = Some i) = (i < length xs \<and> strict_eq (Some (xs ! i)) v)"
proof (induction xs arbitrary: i)
  case Nil
  then show ?case by simp
next
  case (Cons x xs)
  show ?case
  proof (cases "strict_eq (Some x) v")
    case True
    then have v: "v = Some x" by (simp add: strict_eq_def)
    have "\<And>k. k < length xs \<Longrightarrow> xs ! k \<noteq> x"
      using Cons.prems by (metis distinct.simps(2) nth_mem)
    then show ?thesis using True v
      by (cases i) (auto simp: strict_eq_def)
  next
    case False
    then show ?thesis using Cons.IH Cons.prems
      by (cases i) auto
  qed
qed

lemma square_update:
  "square n m \<Longrightarrow> a < n \<Longrightarrow> square n (m[a := (m ! a)[p := c]])"
  by (auto simp: square_def list_all_length nth_list_update)

lemma tally_square: "square n m \<Longrightarrow> length ls = n \<Longrightarrow> distinct ls \<Longrightarrow> square n (tally ls predicted iv m)"
  by (auto simp: tally_def indexOf_Some_iff square_update split: option.splits)

lemma tally_entry:
  assumes "square n m" and "length ls = n" and "distinct ls" and "i < n" and "j < n"
  shows "tally ls predicted iv m ! i ! j =
           m ! i ! j + (if indexOf ls (Some (snd iv)) = Some i \<and>
                           indexOf ls (elem_at predicted (fst iv)) = Some j then 1 else 0)"
proof (cases "indexOf ls (Some (snd iv))")
  case None
  then show ?thesis by (simp add: tally_def)
next
  case (Some a)
  note a = this
  show ?thesis
  proof (cases "indexOf ls (elem_at predicted (fst iv))")
    case None
    then show ?thesis using a by (simp add: tally_def)
  next
    case (Some p)
    have an: "a < n" using a assms(2,3) by (simp add: indexOf_Some_iff)
    have pn: "p < n" using Some assms(2,3) by (simp add: indexOf_Some_iff)
    have rows: "length m = n" "\<And>r. r < n \<Longrightarrow> length (m ! r) = n"
      using assms(1) by (simp_all add: square_def list_all_length)
    show ?thesis
      using a Some an pn rows assms(4,5)
      by (auto simp: tally_def nth_list_update)
  qed
qed

lemma fold_tally:
  assumes "length ls = n" and "distinct ls" and "i < n" and "j < n"
  shows "square n m \<Longrightarrow>
         square n (fold (tally ls predicted) ivs m) \<and>
         fold (tally ls predicted) ivs m ! i ! j =
           m ! i ! j + length (filter (\<lambda>iv. indexOf ls (Some (snd iv)) = Some i \<and>
                                 indexOf ls (elem_at predicted (fst iv)) = Some j) ivs)"
proof (induction ivs arbitrary: m)
  case Nil
  then show ?case by simp
next
  case (Cons iv ivs)
  have sq: "square n (tally ls predicted iv m)"
    by (rule tally_square [OF Cons.prems assms(1,2)])
  show ?case
    using Cons.IH [OF sq] tally_entry [OF Cons.prems assms, of predicted iv]
    by simp
qed

text \<open>
  Entry \<open>(i, j)\<close> of the matrix counts the positions whose actual value is the
  \<open>i\<close>-th and whose predicted value is the \<open>j\<close>-th label, in the order the labels
  are sorted in.
\<close>

lemma calculateConfusionMatrix_entry:
  assumes "i < length (sort_default toStr (Set_values (actual @ predicted)))"
    and "j < length (sort_default toStr (Set_values (actual @ predicted)))"
  shows "calculateConfusionMatrix toStr actual predicted ! i ! j =
           length (filter
             (\<lambda>iv. strict_eq (Some (sort_default toStr (Set_values (actual @ predicted)) ! i))
                      (Some (snd iv)) \<and>
                   strict_eq (Some (sort_default toStr (Set_values (actual @ predicted)) ! j))
                      (elem_at predicted (fst iv)))
             (indexed actual))"
proof -
  let ?ls = "sort_default toStr (Set_values (actual @ predicted))"
  let ?n = "length ?ls"
  have d: "distinct ?ls"
    by (simp add: sort_default_def Set_values_props(1))
  have sq: "square ?n (replicate ?n (replicate ?n 0))"
    by (simp add: square_def list_all_length)
  have "fold (tally ?ls predicted) (indexed actual) (replicate ?n (replicate ?n 0)) ! i ! j =
          replicate ?n (replicate ?n 0) ! i ! j +
          length (filter (\<lambda>iv. indexOf ?ls (Some (snd iv)) = Some i \<and>
                    indexOf ?ls (elem_at predicted (fst iv)) = Some j) (indexed actual))"
    using fold_tally [OF refl d assms sq] by blast
  then show ?thesis
    using assms by (simp add: calculateConfusionMatrix_def Let_def indexOf_Some_iff [OF d])
qed

lemma nat_string_small: "nat_string 2 = ''2''" "nat_string 10 = ''10''"
  "nat_string 0 = ''0''" "nat_string 1 = ''1''" "nat_string (Suc 0) = ''1''"
  by code_simp+

lemma sort_default_2_10:
  "sort_default toString_integer [Num 2, Num 10] = [Num 10, Num 2]"
  by (simp add: sort_default_def toString_integer_def nat_string_small del: nat_string.simps)

text \<open>
  Claim C5 says that the confusion matrix is indexed by the labels in ascending numeric
  order. With the labels 2, 10, 10 as actual and as predicted values, the labels are
  ordered 10, 2 (by their string forms) and the matrix is \<open>[[2, 0], [0, 1]]\<close>; by
  numeric order it is \<open>[[1, 0], [0, 2]]\<close>.
\<close>

theorem calculateConfusionMatrix_string_order:
  "sort_default toString_integer (Set_values (labels_2_10_10 @ labels_2_10_10)) = [Num 10, Num 2] \<and>
   calculateConfusionMatrix toString_integer labels_2_10_10 labels_2_10_10 = [[2, 0], [0, 1]]"
proof -
  have sv: "Set_values (labels_2_10_10 @ labels_2_10_10) = [Num 2, Num 10]"
    by (simp add: labels_2_10_10_def Set_values_def Set_add_def)
  have "calculateConfusionMatrix toString_integer labels_2_10_10 labels_2_10_10 = [[2, 0], [0, 1]]"
    unfolding calculateConfusionMatrix_def Let_def sv sort_default_2_10
    by (simp add: labels_2_10_10_def indexed_def tally_def strict_eq_def elem_at_def
          numeral_2_eq_2)
  then show ?thesis by (simp add: sv sort_default_2_10)
qed

text \<open>The example of the specification, where the two orders agree.\<close>

lemma calculateConfusionMatrix_0101:
  "calculateConfusionMatrix toString_integer [Num 0, Num 1, Num 0, Num 1]
     [Num 0, Num 1, Num 1, Num 1] = [[1, 1], [0, 2]]"
proof -
  have sv: "Set_values ([Num 0, Num 1, Num 0, Num 1] @ [Num 0, Num 1, Num 1, Num 1])
              = [Num 0, Num 1]"
    by (simp add: Set_values_def Set_add_def)
  have so: "sort_default toString_integer [Num 0, Num 1] = [Num 0, Num 1]"
    by (simp add: sort_default_def toString_integer_def nat_string_small del: nat_string.simps)
  show ?thesis
    unfolding calculateConfusionMatrix_def Let_def sv so
    by (simp add: indexed_def tally_def strict_eq_def elem_at_def numeral_2_eq_2 numeral_3_eq_3)
qed

end
